theory Spec2Isabelle
  imports Complex_Main "HOL-Library.AList"
begin

section \<open>JavaScript values as the route handler sees them\<close>

text \<open>
  The handler in \<^verbatim>\<open>src/app/api/generate/route.ts\<close> works on values of type
  \<^verbatim>\<open>any\<close>: the request body, the provider's response and the model's answer are
  whatever \<^verbatim>\<open>JSON.parse\<close> returned. A value is therefore a tagged union. An array
  carries its elements and the named properties assigned to it afterwards (an array is an
  object: \<^verbatim>\<open>page.meta ??= ...\<close> on an array stores a property); a parsed array has
  none. An object is its own properties in insertion order. A string is the list of its
  UTF-16 code units; \<^typ>\<open>char\<close> has 256 values, so the model covers strings whose code
  units are below 256. A number parsed from JSON is finite, hence a rational; the sign of
  zero is dropped, which no operation of this program observes.
\<close>

datatype jsval =
    JUndefined
  | JNull
  | JBool bool
  | JNum rat
  | JStr string
  | JArr "jsval list" "(string \<times> jsval) list"
  | JObj "(string \<times> jsval) list"

text \<open>Every exception the program can meet is an \<^verbatim>\<open>Error\<close> object with a message.
  The text of an engine-raised message varies by engine; no statement below rests on it.\<close>

datatype js_error =
    TypeError string
  | SyntaxError string
  | Error string

fun message :: "js_error \<Rightarrow> string" where
  "message (TypeError m) = m"
| "message (SyntaxError m) = m"
| "message (Error m) = m"

text \<open>Sequencing of computations that may throw: the first exception wins.\<close>

fun and_then :: "js_error + 'a \<Rightarrow> ('a \<Rightarrow> js_error + 'b) \<Rightarrow> js_error + 'b" where
  "and_then (Inl e) f = Inl e"
| "and_then (Inr x) f = f x"

fun map_throwing :: "('a \<Rightarrow> js_error + 'b) \<Rightarrow> 'a list \<Rightarrow> js_error + 'b list" where
  "map_throwing f [] = Inr []"
| "map_throwing f (x # xs) =
     and_then (f x) (\<lambda>y. and_then (map_throwing f xs) (\<lambda>ys. Inr (y # ys)))"

text \<open>\<^verbatim>\<open>x == null\<close>, the test behind \<^verbatim>\<open>??\<close>, \<^verbatim>\<open>??=\<close> and \<^verbatim>\<open>?.\<close>.\<close>

fun nullish :: "jsval \<Rightarrow> bool" where
  "nullish JUndefined = True"
| "nullish JNull = True"
| "nullish _ = False"

text \<open>\<^verbatim>\<open>a ?? b\<close> for a right operand that cannot throw.\<close>

definition coalesce :: "jsval \<Rightarrow> jsval \<Rightarrow> jsval" where
  "coalesce a b = (if nullish a then b else a)"

text \<open>ToBoolean, as \<^verbatim>\<open>!x\<close>, \<^verbatim>\<open>x || y\<close> and \<^verbatim>\<open>if (x)\<close> apply it.\<close>

fun truthy :: "jsval \<Rightarrow> bool" where
  "truthy JUndefined = False"
| "truthy JNull = False"
| "truthy (JBool b) = b"
| "truthy (JNum n) = (n \<noteq> 0)"
| "truthy (JStr s) = (s \<noteq> [])"
| "truthy (JArr xs ps) = True"
| "truthy (JObj ps) = True"

text \<open>\<^verbatim>\<open>a || b\<close> for a right operand that cannot throw.\<close>

definition or_else :: "jsval \<Rightarrow> jsval \<Rightarrow> jsval" where
  "or_else a b = (if truthy a then a else b)"

text \<open>
  Reading a named property of a value that is neither \<^verbatim>\<open>null\<close> nor
  \<^verbatim>\<open>undefined\<close>. The names the program reads (\<^verbatim>\<open>q\<close>, \<^verbatim>\<open>role\<close>, \<^verbatim>\<open>meta\<close>,
  \<^verbatim>\<open>sections\<close>, \<^verbatim>\<open>html\<close>, \<^verbatim>\<open>results\<close>, \<^verbatim>\<open>title\<close>, \<^verbatim>\<open>content\<close>, \<^verbatim>\<open>choices\<close>,
  \<^verbatim>\<open>message\<close>, \<^verbatim>\<open>description\<close>, \<^verbatim>\<open>id\<close>) are on no prototype, so an object or
  array answers with its own property and a primitive with \<^verbatim>\<open>undefined\<close>.
\<close>

fun own_prop :: "jsval \<Rightarrow> string \<Rightarrow> jsval" where
  "own_prop (JObj ps) k = (case map_of ps k of None \<Rightarrow> JUndefined | Some v \<Rightarrow> v)"
| "own_prop (JArr xs ps) k = (case map_of ps k of None \<Rightarrow> JUndefined | Some v \<Rightarrow> v)"
| "own_prop _ k = JUndefined"

text \<open>\<^verbatim>\<open>v.k\<close>: a TypeError on \<^verbatim>\<open>null\<close> and \<^verbatim>\<open>undefined\<close>.\<close>

fun type_name :: "jsval \<Rightarrow> string" where
  "type_name JUndefined = ''undefined''"
| "type_name JNull = ''null''"
| "type_name (JBool b) = ''boolean''"
| "type_name (JNum n) = ''number''"
| "type_name (JStr s) = ''string''"
| "type_name (JArr xs ps) = ''object''"
| "type_name (JObj ps) = ''object''"

definition get_prop :: "jsval \<Rightarrow> string \<Rightarrow> js_error + jsval" where
  "get_prop v k =
     (if nullish v
      then Inl (TypeError (''Cannot read properties of '' @ type_name v @
                           '' (reading '' @ [CHR 0x27] @ k @ [CHR 0x27] @ '')''))
      else Inr (own_prop v k))"

text \<open>\<^verbatim>\<open>v?.k\<close>: \<^verbatim>\<open>undefined\<close> where \<^verbatim>\<open>v.k\<close> would throw.\<close>

definition opt_prop :: "jsval \<Rightarrow> string \<Rightarrow> jsval" where
  "opt_prop v k = (if nullish v then JUndefined else own_prop v k)"

text \<open>
  \<^verbatim>\<open>v.k = x\<close> in strict-mode code (the route is an ES module): an object or array gets
  the property, replaced in place or appended; \<^verbatim>\<open>null\<close>, \<^verbatim>\<open>undefined\<close> and the
  primitives throw.
\<close>

fun set_prop :: "jsval \<Rightarrow> string \<Rightarrow> jsval \<Rightarrow> js_error + jsval" where
  "set_prop (JObj ps) k x = Inr (JObj (AList.update k x ps))"
| "set_prop (JArr xs ps) k x = Inr (JArr xs (AList.update k x ps))"
| "set_prop v k x =
     (if nullish v
      then Inl (TypeError (''Cannot set properties of '' @ type_name v @
                           '' (setting '' @ [CHR 0x27] @ k @ [CHR 0x27] @ '')''))
      else Inl (TypeError (''Cannot create property '' @ [CHR 0x27] @ k @ [CHR 0x27] @
                           '' on '' @ type_name v)))"

text \<open>\<^verbatim>\<open>v.k ??= x\<close>: read, and assign only when the read is nullish.\<close>

definition nullish_assign :: "jsval \<Rightarrow> string \<Rightarrow> jsval \<Rightarrow> js_error + jsval" where
  "nullish_assign v k x =
     and_then (get_prop v k) (\<lambda>old. if nullish old then set_prop v k x else Inr v)"

section \<open>The default-filling statements of POST\<close>

definition default_meta :: jsval where
  "default_meta = JObj [(''title'', JStr ''Generated Page''), (''description'', JStr '''')]"

definition default_sections :: jsval where
  "default_sections = JArr [] []"

definition default_html :: jsval where
  "default_html = JStr ''<main class='container'><h1>Generated Page</h1></main>''"

text \<open>Lines 24 to 26 of the route, on the value \<^verbatim>\<open>generatePageJSON\<close> returned.\<close>

definition toPage :: "jsval \<Rightarrow> js_error + jsval" where
  "toPage page =
     and_then (nullish_assign page ''meta'' default_meta) (\<lambda>page.
     and_then (nullish_assign page ''sections'' default_sections) (\<lambda>page.
     nullish_assign page ''html'' default_html))"

section \<open>Strings and conversions\<close>

text \<open>The white space and line terminators \<^verbatim>\<open>String.prototype.trim\<close> strips, among
  the code units below 256: TAB, LF, VT, FF, CR, SPACE and NO-BREAK SPACE.\<close>

definition is_ws :: "char \<Rightarrow> bool" where
  "is_ws c = (c = CHR 0x09 \<or> c = CHR 0x0A \<or> c = CHR 0x0B \<or> c = CHR 0x0C \<or>
              c = CHR 0x0D \<or> c = CHR 0x20 \<or> c = CHR 0xA0)"

definition trim :: "string \<Rightarrow> string" where
  "trim s = rev (dropWhile is_ws (rev (dropWhile is_ws s)))"

text \<open>\<^verbatim>\<open>Array.prototype.join\<close> on an array of strings.\<close>

fun join :: "string \<Rightarrow> string list \<Rightarrow> string" where
  "join sep [] = []"
| "join sep [s] = s"
| "join sep (s # t # ts) = s @ sep @ join sep (t # ts)"

text \<open>
  ToString, as a template literal and \<^verbatim>\<open>JSON.parse\<close> apply it to their operand. The
  rendering of a number is the engine's (\<^verbatim>\<open>Number::toString\<close>) and comes in as
  \<open>nts\<close>. An array joins its elements with a comma, \<^verbatim>\<open>null\<close> and \<^verbatim>\<open>undefined\<close>
  elements as the empty string. A parsed value holds no function, so an own property
  \<^verbatim>\<open>toString\<close> makes the conversion throw, and an own property \<^verbatim>\<open>join\<close> of an array
  sends \<^verbatim>\<open>Array.prototype.toString\<close> to \<^verbatim>\<open>Object.prototype.toString\<close>.
\<close>

fun to_string :: "(rat \<Rightarrow> string) \<Rightarrow> jsval \<Rightarrow> js_error + string"
  and join_elements :: "(rat \<Rightarrow> string) \<Rightarrow> jsval list \<Rightarrow> js_error + string" where
  "to_string nts JUndefined = Inr ''undefined''"
| "to_string nts JNull = Inr ''null''"
| "to_string nts (JBool b) = Inr (if b then ''true'' else ''false'')"
| "to_string nts (JNum n) = Inr (nts n)"
| "to_string nts (JStr s) = Inr s"
| "to_string nts (JArr xs ps) =
     (if map_of ps ''toString'' \<noteq> None
      then Inl (TypeError ''Cannot convert object to primitive value'')
      else if map_of ps ''join'' \<noteq> None then Inr ''[object Array]''
      else join_elements nts xs)"
| "to_string nts (JObj ps) =
     (if map_of ps ''toString'' \<noteq> None
      then Inl (TypeError ''Cannot convert object to primitive value'')
      else Inr ''[object Object]'')"
| "join_elements nts [] = Inr []"
| "join_elements nts [x] = (if nullish x then Inr [] else to_string nts x)"
| "join_elements nts (x # y # ys) =
     and_then (if nullish x then Inr [] else to_string nts x) (\<lambda>s.
     and_then (join_elements nts (y # ys)) (\<lambda>r. Inr (s @ '','' @ r)))"

text \<open>\<^verbatim>\<open>v?.[0]\<close>: the first element of an array, the first code unit of a string, the
  own property \<^verbatim>\<open>"0"\<close> of an object.\<close>

fun opt_first :: "jsval \<Rightarrow> jsval" where
  "opt_first (JArr xs ps) = (case xs of [] \<Rightarrow> JUndefined | x # _ \<Rightarrow> x)"
| "opt_first (JStr s) = (case s of [] \<Rightarrow> JUndefined | c # _ \<Rightarrow> JStr [c])"
| "opt_first (JObj ps) = own_prop (JObj ps) ''0''"
| "opt_first _ = JUndefined"

text \<open>\<^verbatim>\<open>v.slice(0, 15000)\<close> for a \<open>v\<close> that is not nullish: strings and arrays have
  the method, nothing else that can be parsed from JSON does.\<close>

fun slice_15000 :: "jsval \<Rightarrow> js_error + jsval" where
  \<open>slice_15000 (JStr s) = Inr (JStr (take 15000 s))\<close>
| \<open>slice_15000 (JArr xs ps) =
     (if map_of ps ''slice'' \<noteq> None
      then Inl (TypeError ''(scraped || "").slice is not a function'')
      else Inr (JArr (take 15000 xs) []))\<close>
| \<open>slice_15000 v = Inl (TypeError ''(scraped || "").slice is not a function'')\<close>

section \<open>The host: environment, network, JSON\<close>

text \<open>
  What the route gets from its platform is a parameter of the model: the environment
  variables, \<^verbatim>\<open>fetch\<close> (a function of the request; a rejected promise is an error),
  \<^verbatim>\<open>JSON.parse\<close> (a SyntaxError on text that is not JSON), \<^verbatim>\<open>JSON.stringify\<close> and the
  rendering of numbers. Reading a response's body can fail too.
\<close>

record request =
  req_url :: string
  req_method :: string
  req_headers :: "(string \<times> string) list"
  req_body :: string

record response =
  status :: nat
  res_text :: "js_error + string"

definition ok :: "response \<Rightarrow> bool" where
  "ok res = (200 \<le> status res \<and> status res \<le> 299)"

record host =
  env :: "string \<Rightarrow> string option"
  fetch :: "request \<Rightarrow> js_error + response"
  JSON_parse :: "string \<Rightarrow> js_error + jsval"
  JSON_stringify :: "jsval \<Rightarrow> string"
  Number_toString :: "rat \<Rightarrow> string"

text \<open>\<^verbatim>\<open>res.json()\<close>: read the body, then parse it.\<close>

definition res_json :: "host \<Rightarrow> response \<Rightarrow> js_error + jsval" where
  "res_json H res = and_then (res_text res) (JSON_parse H)"

text \<open>The handler's answer: \<^verbatim>\<open>NextResponse.json(payload, { status })\<close>.\<close>

record reply =
  status_code :: nat
  payload :: jsval

section \<open>The Aggregator: firecrawl\<close>

definition OPENROUTER_URL :: string where
  "OPENROUTER_URL = ''https://openrouter.ai/api/v1/chat/completions''"

definition FIRECRAWL_BASE :: "host \<Rightarrow> string" where
  "FIRECRAWL_BASE H =
     (case env H ''FIRECRAWL_BASE'' of None \<Rightarrow> ''https://api.firecrawl.dev/v1'' | Some b \<Rightarrow> b)"

text \<open>\<^verbatim>\<open>/^https?:\/\//i.test(s)\<close>: anchored at the start, letters in either case, an
  optional \<^verbatim>\<open>s\<close>.\<close>

definition starts_with :: "string \<Rightarrow> string \<Rightarrow> bool" where
  "starts_with p s = (take (length p) s = p)"

fun url_regex_test :: "string \<Rightarrow> bool" where
  "url_regex_test (c1 # c2 # c3 # c4 # rest) =
     ((c1 = CHR ''h'' \<or> c1 = CHR ''H'') \<and> (c2 = CHR ''t'' \<or> c2 = CHR ''T'') \<and>
      (c3 = CHR ''t'' \<or> c3 = CHR ''T'') \<and> (c4 = CHR ''p'' \<or> c4 = CHR ''P'') \<and>
      ((case rest of [] \<Rightarrow> False
        | c5 # rest' \<Rightarrow> (c5 = CHR ''s'' \<or> c5 = CHR ''S'') \<and> starts_with ''://'' rest') \<or>
       starts_with ''://'' rest))"
| "url_regex_test _ = False"

text \<open>Lines 38 to 40: the endpoint and the request body chosen for a string \<open>q\<close>.\<close>

definition firecrawl_call :: "string \<Rightarrow> string \<times> jsval" where
  "firecrawl_call q =
     (let isUrl = url_regex_test (trim q);
          endpoint = (if isUrl then ''/scrape'' else ''/search'');
          body = (if isUrl then JObj [(''url'', JStr q)]
                  else JObj [(''query'', JStr q), (''limit'', JNum 5)])
      in (endpoint, body))"

definition firecrawl_request :: "host \<Rightarrow> string \<Rightarrow> jsval \<Rightarrow> request" where
  "firecrawl_request H endpoint body =
     \<lparr>req_url = FIRECRAWL_BASE H @ endpoint,
      req_method = ''POST'',
      req_headers =
        (''Content-Type'', ''application/json'') #
        (case env H ''FIRECRAWL_API_KEY'' of
           None \<Rightarrow> []
         | Some k \<Rightarrow> if k = [] then [] else [(''Authorization'', ''Bearer '' @ k)]),
      req_body = JSON_stringify H body\<rparr>"

text \<open>The callback of \<^verbatim>\<open>data.results.map\<close>: one record rendered as title, newline,
  content.\<close>

definition render_record :: "host \<Rightarrow> jsval \<Rightarrow> js_error + string" where
  "render_record H r =
     and_then (get_prop r ''title'') (\<lambda>t.
     and_then (to_string (Number_toString H) (coalesce t (JStr ''''))) (\<lambda>ts.
     and_then (get_prop r ''content'') (\<lambda>c.
     and_then (to_string (Number_toString H) (coalesce c (JStr ''''))) (\<lambda>cs.
     Inr (ts @ [CHR 0x0A] @ cs)))))"

definition separator :: string where
  "separator = [CHR 0x0A, CHR 0x0A] @ ''---'' @ [CHR 0x0A, CHR 0x0A]"

text \<open>Lines 59 to 64: the parsed response turned into the aggregated content.\<close>

definition normalize_response :: "host \<Rightarrow> jsval \<Rightarrow> js_error + jsval" where
  "normalize_response H data =
     (case opt_prop data ''results'' of
        JArr rs ps \<Rightarrow>
          and_then (map_throwing (render_record H) rs) (\<lambda>ss. Inr (JStr (join separator ss)))
      | _ \<Rightarrow>
          Inr (let c = opt_prop data ''content''
               in if nullish c then JStr (JSON_stringify H data) else c))"

text \<open>
  \<^verbatim>\<open>firecrawl(q)\<close>. Only a string has \<^verbatim>\<open>trim\<close>: any other \<open>q\<close> throws at
  \<^verbatim>\<open>q.trim()\<close>. A response that is not ok throws with the status and the body, the body
  read as the empty string when reading it fails.
\<close>

definition firecrawl :: "host \<Rightarrow> jsval \<Rightarrow> js_error + jsval" where
  "firecrawl H q =
     (case q of
        JStr s \<Rightarrow>
          (let (endpoint, body) = firecrawl_call s in
           and_then (fetch H (firecrawl_request H endpoint body)) (\<lambda>res.
           if \<not> ok res
           then Inl (Error (''Firecrawl '' @ endpoint @ '' failed: '' @
                            Number_toString H (of_nat (status res)) @ '' '' @
                            (case res_text res of Inl e \<Rightarrow> [] | Inr text \<Rightarrow> text)))
           else and_then (res_json H res) (normalize_response H)))
      | _ \<Rightarrow>
          and_then (get_prop q ''trim'') (\<lambda>f. Inl (TypeError ''q.trim is not a function'')))"

section \<open>The Prompt Composer: systemPrompt and userPrompt\<close>

definition systemPrompt :: string where
  \<open>systemPrompt =
''
You are an expert real-estate landing page builder.
Return STRICT JSON shaped as:
{
  "meta": {"title": string, "description": string},
  "sections": [{"id": string, "title": string, "html": string}],
  "html": string
}
Rules:
- Friendly, trustworthy, scannable copy.
- Be factual to the source; never fabricate reviews/quotes.
- Use semantic HTML only (h1/h2/p/ul/li/section).
- No external CSS or scripts.
''\<close>

definition prompt_query :: string where
  \<open>prompt_query =
''
QUERY: ''\<close>

definition prompt_scraped :: string where
  \<open>prompt_scraped =
''

SCRAPED_CONTENT:
''\<close>

definition prompt_goals :: string where
  \<open>prompt_goals =
''

GOALS:
- Produce structured sections tailored to the selected role.
- Also return a complete "html" page assembled from those sections.
- Omit sections if source info is missing (do NOT invent).
''\<close>

definition prompt_agent :: string where
  \<open>prompt_agent =
''
ROLE: Real Estate Agent (Listing/Area Landing)
SECTIONS (suggested):
- Hero (address or hook)
- Listing Highlights (bulleted facts)
- Property Description (concise narrative)
- Neighborhood Vibe (schools/amenities only if present)
- Call to Action (contact mailto/tel placeholders)
''\<close>

definition prompt_loan :: string where
  \<open>prompt_loan =
''
ROLE: Loan Officer (Programs/Rates Landing)
SECTIONS (suggested):
- Hero (clear value prop)
- Programs Overview (Conventional/FHA/VA/USDA if present)
- Rates Summary (qualitative; no guarantees)
- FAQ (docs needed, timelines)
- Call to Action (contact mailto/tel placeholders)
DISCLAIMERS:
- Never claim live or guaranteed rates if specifics are missing.
''\<close>

definition prompt_profile :: string where
  \<open>prompt_profile =
''
ROLE: Profile Builder (Agent/Team/Pro)
SECTIONS (suggested):
- Hero (name, title, market/service area)
- Bio (short + extended; summarize source)
- Services / Specialties (from source only)
- Reviews/Press (include only if present)
- Links (website/socials if present)
- Contact (mailto/tel placeholders if not provided)
''\<close>

text \<open>
  \<^verbatim>\<open>userPrompt(role, q, scraped)\<close>: the template's pieces in source order, with
  \<^verbatim>\<open>(scraped || "").slice(0, 15000)\<close> between them, then the suffix of the role
  (\<^verbatim>\<open>profile\<close> for any role that is neither \<^verbatim>\<open>"agent"\<close> nor \<^verbatim>\<open>"loan"\<close>).
\<close>

definition userPrompt :: "host \<Rightarrow> jsval \<Rightarrow> jsval \<Rightarrow> jsval \<Rightarrow> js_error + string" where
  "userPrompt H role q scraped =
     and_then (to_string (Number_toString H) q) (\<lambda>qs.
     and_then (slice_15000 (or_else scraped (JStr ''''))) (\<lambda>cut.
     and_then (to_string (Number_toString H) cut) (\<lambda>cs.
     let base = prompt_query @ qs @ prompt_scraped @ cs @ prompt_goals in
     Inr (if role = JStr ''agent'' then base @ prompt_agent
          else if role = JStr ''loan'' then base @ prompt_loan
          else base @ prompt_profile))))"

section \<open>The Generator: generatePageJSON\<close>

text \<open>The request to the model. The number literal \<^verbatim>\<open>0.4\<close> stands as the fraction
  it denotes; only the host's serializer ever reads it.\<close>

definition openrouter_request :: "host \<Rightarrow> string \<Rightarrow> request" where
  "openrouter_request H user =
     \<lparr>req_url = OPENROUTER_URL,
      req_method = ''POST'',
      req_headers =
        [(''Content-Type'', ''application/json''),
         (''Authorization'',
            ''Bearer '' @ (case env H ''OPENROUTER_API_KEY'' of
                             None \<Rightarrow> ''undefined'' | Some k \<Rightarrow> k)),
         (''HTTP-Referer'',
            (case env H ''APP_URL'' of
               None \<Rightarrow> ''http://localhost:3000''
             | Some u \<Rightarrow> if u = [] then ''http://localhost:3000'' else u)),
         (''X-Title'', ''Open-Precense Real Estate Remix'')],
      req_body = JSON_stringify H
        (JObj [(''model'',
                  JStr (case env H ''OPENROUTER_MODEL'' of
                          None \<Rightarrow> ''openai/gpt-4o-mini'' | Some m \<Rightarrow> m)),
               (''temperature'', JNum (4 / 10)),
               (''response_format'', JObj [(''type'', JStr ''json_object'')]),
               (''messages'',
                  JArr [JObj [(''role'', JStr ''system''), (''content'', JStr systemPrompt)],
                        JObj [(''role'', JStr ''user''), (''content'', JStr user)]] [])])\<rparr>"

text \<open>Line 100: \<^verbatim>\<open>data?.choices?.[0]?.message?.content ?? "{}"\<close>.\<close>

definition llm_text :: "jsval \<Rightarrow> jsval" where
  "llm_text data =
     coalesce (opt_prop (opt_prop (opt_first (opt_prop data ''choices'')) ''message'')
                 ''content'')
       (JStr ''{}'')"

text \<open>
  \<^verbatim>\<open>generatePageJSON({ q, role, scraped })\<close>. The user prompt is built before the
  request is sent. A response that is not ok throws with the status and the body.
  \<^verbatim>\<open>JSON.parse\<close> converts its argument to a string first.
\<close>

definition generatePageJSON :: "host \<Rightarrow> jsval \<Rightarrow> jsval \<Rightarrow> jsval \<Rightarrow> js_error + jsval" where
  "generatePageJSON H q role scraped =
     and_then (userPrompt H role q scraped) (\<lambda>user.
     and_then (fetch H (openrouter_request H user)) (\<lambda>res.
     if \<not> ok res
     then and_then (res_text res) (\<lambda>text.
            Inl (Error (''OpenRouter failed: '' @ Number_toString H (of_nat (status res)) @
                        '' '' @ text)))
     else and_then (res_json H res) (\<lambda>data.
          and_then (to_string (Number_toString H) (llm_text data)) (JSON_parse H))))"

section \<open>The entry point: POST\<close>

text \<open>\<^verbatim>\<open>const { q, role = "agent" } = body\<close>: a TypeError on \<^verbatim>\<open>null\<close>; the default
  stands in for a \<^verbatim>\<open>role\<close> that is \<^verbatim>\<open>undefined\<close> only.\<close>

definition destructure :: "jsval \<Rightarrow> js_error + jsval \<times> jsval" where
  "destructure body =
     (if nullish body
      then Inl (TypeError (''Cannot destructure property '' @ [CHR 0x27] @ ''q'' @ [CHR 0x27] @
                           '' of '' @ [CHR 0x27] @ ''(intermediate value)'' @ [CHR 0x27] @
                           '' as it is '' @ type_name body @ ''.''))
      else Inr (own_prop body ''q'',
                (let role = own_prop body ''role''
                 in if role = JUndefined then JStr ''agent'' else role)))"

text \<open>The body of the \<^verbatim>\<open>try\<close> block; \<open>parsed\<close> is what \<^verbatim>\<open>await req.json()\<close> gave.\<close>

definition try_block :: "host \<Rightarrow> js_error + jsval \<Rightarrow> js_error + reply" where
  "try_block H parsed =
     and_then parsed (\<lambda>body.
     and_then (destructure body) (\<lambda>(q, role).
     if \<not> truthy q
     then Inr \<lparr>status_code = 400,
               payload = JObj [(''error'', JStr ''Missing input 'q'.'')]\<rparr>
     else
       and_then (firecrawl H q) (\<lambda>scraped.
       and_then (generatePageJSON H q role scraped) (\<lambda>page.
       and_then (toPage page) (\<lambda>page.
       Inr \<lparr>status_code = 200,
            payload = JObj [(''page'', page), (''q'', q), (''role'', role),
                            (''scraped'', scraped)]\<rparr>)))))"

text \<open>\<^verbatim>\<open>POST(req)\<close>: the \<^verbatim>\<open>catch\<close> turns every exception into a 500 whose error is the
  exception's message, or "Generation failed." when that is empty.\<close>

definition POST :: "host \<Rightarrow> js_error + jsval \<Rightarrow> reply" where
  "POST H parsed =
     (case try_block H parsed of
        Inr r \<Rightarrow> r
      | Inl err \<Rightarrow>
          \<lparr>status_code = 500,
           payload = JObj [(''error'',
                            or_else (JStr (message err)) (JStr ''Generation failed.''))]\<rparr>)"

section \<open>The Markdown export: toMarkdown and stripHtml\<close>

text \<open>
  The page component (\<^verbatim>\<open>src/unnamed/part_000\<close>) exports the page it received from
  the route. The browser's part of \<^verbatim>\<open>stripHtml\<close> is a parameter: for a markup
  string, the \<^verbatim>\<open>textContent\<close> and the \<^verbatim>\<open>innerText\<close> of a detached \<^verbatim>\<open>div\<close> whose
  \<^verbatim>\<open>innerHTML\<close> was set to it.
\<close>

record dom =
  textContent :: "string \<Rightarrow> string"
  innerText :: "string \<Rightarrow> string"

definition stripHtml :: "(rat \<Rightarrow> string) \<Rightarrow> dom \<Rightarrow> jsval \<Rightarrow> js_error + string" where
  "stripHtml nts D html =
     and_then (to_string nts (or_else html (JStr ''''))) (\<lambda>markup.
       Inr (trim (if textContent D markup \<noteq> [] then textContent D markup
                  else if innerText D markup \<noteq> [] then innerText D markup
                  else [])))"

text \<open>\<^verbatim>\<open>v?.length\<close>, and the values \<^verbatim>\<open>for (const s of v)\<close> runs through: the elements
  of an array, the characters of a string; nothing else that has a truthy length is
  iterable.\<close>

fun length_prop :: "jsval \<Rightarrow> jsval" where
  "length_prop (JArr xs ps) = JNum (of_nat (length xs))"
| "length_prop (JStr s) = JNum (of_nat (length s))"
| "length_prop (JObj ps) = own_prop (JObj ps) ''length''"
| "length_prop v = JUndefined"

fun iterate :: "jsval \<Rightarrow> js_error + jsval list" where
  "iterate (JArr xs ps) = Inr xs"
| "iterate (JStr s) = Inr (map (\<lambda>c. JStr [c]) s)"
| "iterate v = Inl (TypeError ''page.sections is not iterable'')"

text \<open>One turn of the loop: the four strings pushed for a section.\<close>

definition section_parts :: "(rat \<Rightarrow> string) \<Rightarrow> dom \<Rightarrow> jsval \<Rightarrow> js_error + string list" where
  "section_parts nts D s =
     and_then (get_prop s ''title'') (\<lambda>title.
     and_then (to_string nts (or_else title (own_prop s ''id''))) (\<lambda>heading.
     and_then (stripHtml nts D (or_else (own_prop s ''html'') (JStr ''''))) (\<lambda>body.
     Inr [''## '' @ heading, [], body, []])))"

definition toMarkdown :: "(rat \<Rightarrow> string) \<Rightarrow> dom \<Rightarrow> jsval \<Rightarrow> js_error + string" where
  "toMarkdown nts D page =
     (if \<not> truthy page
      then Inr (''# Generated Page'' @ [CHR 0x0A, CHR 0x0A] @ ''_No content yet._'')
      else
        let title = or_else (opt_prop (own_prop page ''meta'') ''title'')
                      (JStr ''Generated Page'');
            desc = or_else (opt_prop (own_prop page ''meta'') ''description'') (JStr '''')
        in
        and_then (to_string nts title) (\<lambda>title_text.
        and_then (if truthy desc
                  then and_then (to_string nts desc) (\<lambda>desc_text.
                         Inr [''> '' @ desc_text, []])
                  else Inr []) (\<lambda>quote.
        and_then (if truthy (length_prop (own_prop page ''sections''))
                  then and_then (iterate (own_prop page ''sections'')) (\<lambda>sections.
                       and_then (map_throwing (section_parts nts D) sections) (\<lambda>pushed.
                       Inr (concat pushed)))
                  else Inr [''_No sections provided._'']) (\<lambda>rest.
        Inr (trim (join [CHR 0x0A] ([''# '' @ title_text, []] @ quote @ rest)))))))"

section \<open>Values used in the statements\<close>

text \<open>The spec's stub generator output:
  \<^verbatim>\<open>{"meta":{"title":"123 Main St"},"sections":[],"html":"<h1>123 Main St</h1>"}\<close>.\<close>

definition stub_candidate :: jsval where
  "stub_candidate =
     JObj [(''meta'', JObj [(''title'', JStr ''123 Main St'')]),
           (''sections'', JArr [] []),
           (''html'', JStr ''<h1>123 Main St</h1>'')]"

text \<open>What a run ended with, for statements about failures.\<close>

definition throws_TypeError :: "js_error + 'a \<Rightarrow> bool" where
  "throws_TypeError r = (case r of Inl (TypeError m) \<Rightarrow> True | _ \<Rightarrow> False)"

text \<open>The properties of an object after \<^verbatim>\<open>obj.k ??= d\<close>.\<close>

definition filled :: "(string \<times> jsval) list \<Rightarrow> string \<Rightarrow> jsval \<Rightarrow> (string \<times> jsval) list" where
  "filled ps k d = (if nullish (own_prop (JObj ps) k) then AList.update k d ps else ps)"

text \<open>
  The spec's absolute-URL pattern, in its own words: the text starts with \<^verbatim>\<open>http://\<close>
  or \<^verbatim>\<open>https://\<close>, letters compared without regard to case.
\<close>

definition lower_ascii :: "char \<Rightarrow> char" where
  "lower_ascii c =
     (let n = (of_char c :: nat) in if 65 \<le> n \<and> n \<le> 90 then char_of (n + 32) else c)"

definition matches_absolute_url :: "string \<Rightarrow> bool" where
  "matches_absolute_url s =
     (starts_with ''http://'' (map lower_ascii s) \<or>
      starts_with ''https://'' (map lower_ascii s))"

text \<open>The one request \<^verbatim>\<open>firecrawl\<close> sends for a string \<open>q\<close>, and two hosts that
  differ in their network only.\<close>

definition selected_request :: "host \<Rightarrow> string \<Rightarrow> request" where
  "selected_request H q = firecrawl_request H (fst (firecrawl_call q)) (snd (firecrawl_call q))"

definition same_platform :: "host \<Rightarrow> host \<Rightarrow> bool" where
  "same_platform H H' =
     (env H' = env H \<and> JSON_parse H' = JSON_parse H \<and>
      JSON_stringify H' = JSON_stringify H \<and> Number_toString H' = Number_toString H)"

text \<open>The provider answered the request for \<open>q\<close> with an ok response whose body parses
  to \<open>data\<close>; the model answered the prompt \<open>user\<close> likewise.\<close>

definition provider_returns :: "host \<Rightarrow> string \<Rightarrow> jsval \<Rightarrow> bool" where
  "provider_returns H q data =
     (case fetch H (selected_request H q) of
        Inl e \<Rightarrow> False
      | Inr res \<Rightarrow> ok res \<and> res_json H res = Inr data)"

definition llm_returns :: "host \<Rightarrow> string \<Rightarrow> jsval \<Rightarrow> bool" where
  "llm_returns H user data =
     (case fetch H (openrouter_request H user) of
        Inl e \<Rightarrow> False
      | Inr res \<Rightarrow> ok res \<and> res_json H res = Inr data)"

text \<open>
  The spec's provider record \<^verbatim>\<open>{ title?, content? }\<close>: an object whose \<^verbatim>\<open>title\<close> and
  \<^verbatim>\<open>content\<close> are each a string, null or absent; and its rendering in the spec's
  words: title, newline, content, an absent field as the empty string.
\<close>

fun text_or_absent :: "jsval option \<Rightarrow> bool" where
  "text_or_absent None = True"
| "text_or_absent (Some (JStr s)) = True"
| "text_or_absent (Some JNull) = True"
| "text_or_absent (Some JUndefined) = True"
| "text_or_absent (Some v) = False"

fun provider_record :: "jsval \<Rightarrow> bool" where
  "provider_record (JObj fs) =
     (text_or_absent (map_of fs ''title'') \<and> text_or_absent (map_of fs ''content''))"
| "provider_record v = False"

fun field_text :: "jsval \<Rightarrow> string \<Rightarrow> string" where
  "field_text (JObj fs) k = (case map_of fs k of Some (JStr s) \<Rightarrow> s | _ \<Rightarrow> [])"
| "field_text v k = []"

definition record_text :: "jsval \<Rightarrow> string" where
  "record_text r = field_text r ''title'' @ [CHR 0x0A] @ field_text r ''content''"

fun is_array :: "jsval \<Rightarrow> bool" where
  "is_array (JArr xs ps) = True"
| "is_array v = False"

text \<open>
  A host for the examples. Its JSON functions are exact on a finite table of texts and
  their values: parsing looks a text up and throws a SyntaxError on any other, serializing
  looks a value up. Every request is answered 200, the model's endpoint with
  \<open>llm_body\<close> and the provider's with \<open>provider_body\<close>. No example renders a number.
\<close>

definition table_parse :: "(string \<times> jsval) list \<Rightarrow> string \<Rightarrow> js_error + jsval" where
  "table_parse tab text =
     (case map_of tab text of
        Some v \<Rightarrow> Inr v
      | None \<Rightarrow> Inl (SyntaxError ''Unexpected token''))"

definition table_stringify :: "(string \<times> jsval) list \<Rightarrow> jsval \<Rightarrow> string" where
  "table_stringify tab v = (case find (\<lambda>entry. snd entry = v) tab of Some entry \<Rightarrow> fst entry | None \<Rightarrow> [])"

definition stub_host :: "string \<Rightarrow> string \<Rightarrow> (string \<times> jsval) list \<Rightarrow> host" where
  "stub_host provider_body llm_body tab =
     \<lparr>env = (\<lambda>name. None),
      fetch = (\<lambda>r. Inr \<lparr>status = 200,
                         res_text = Inr (if req_url r = OPENROUTER_URL then llm_body
                                         else provider_body)\<rparr>),
      JSON_parse = table_parse tab,
      JSON_stringify = table_stringify tab,
      Number_toString = (\<lambda>n. [])\<rparr>"

text \<open>The example host with the provider answering \<^verbatim>\<open>{}\<close> and the model answering
  \<^verbatim>\<open>{}\<close>, and the same host with a network that refuses every request but the
  provider's \<^verbatim>\<open>/scrape\<close>.\<close>

definition plain_host :: host where
  "plain_host = stub_host ''{}'' ''{}'' [(''{}'', JObj [])]"

definition scrape_only_host :: host where
  "scrape_only_host =
     plain_host\<lparr>fetch := (\<lambda>r. if req_url r = ''https://api.firecrawl.dev/v1/scrape''
                               then fetch plain_host r
                               else Inl (TypeError ''fetch failed''))\<rparr>"

text \<open>The example host with a network that refuses every request but the provider's
  \<^verbatim>\<open>/search\<close>.\<close>

definition search_only_host :: host where
  "search_only_host =
     plain_host\<lparr>fetch := (\<lambda>r. if req_url r = ''https://api.firecrawl.dev/v1/search''
                               then fetch plain_host r
                               else Inl (TypeError ''fetch failed''))\<rparr>"

text \<open>A provider answer whose \<^verbatim>\<open>results\<close> holds \<^verbatim>\<open>null\<close> in place of a record.\<close>

definition null_record_body :: string where
  \<open>null_record_body = ''{"results":[null]}''\<close>

definition null_record_data :: jsval where
  "null_record_data = JObj [(''results'', JArr [JNull] [])]"

definition null_record_host :: host where
  "null_record_host =
     stub_host null_record_body ''{}''
       [(null_record_body, null_record_data), (''{}'', JObj [])]"

text \<open>The spec's end-to-end scenario, with a second record that has no content: the
  provider's answer to the search for "123 Main St, Springfield".\<close>

definition listing_body :: string where
  \<open>listing_body =
     ''{"results":[{"title":"123 Main St Listing","content":"3bd/2ba, $450,000"},{"title":"Springfield"}]}''\<close>

definition listing_data :: jsval where
  "listing_data =
     JObj [(''results'',
            JArr [JObj [(''title'', JStr ''123 Main St Listing''),
                        (''content'', JStr ''3bd/2ba, $450,000'')],
                  JObj [(''title'', JStr ''Springfield'')]] [])]"

definition listing_host :: host where
  "listing_host = stub_host listing_body ''{}'' [(listing_body, listing_data), (''{}'', JObj [])]"

text \<open>A scraped page, \<^verbatim>\<open>{"content":"Open house on Sunday"}\<close>.\<close>

definition scraped_body :: string where
  \<open>scraped_body = ''{"content":"Open house on Sunday"}''\<close>

definition scraped_host :: host where
  "scraped_host =
     stub_host scraped_body ''{}''
       [(scraped_body, JObj [(''content'', JStr ''Open house on Sunday'')]), (''{}'', JObj [])]"

text \<open>A scraped page of 15001 characters.\<close>

definition long_content :: string where
  "long_content = replicate 15001 (CHR ''a'')"

definition long_body :: string where
  \<open>long_body = ''{"content":"'' @ long_content @ ''"}''\<close>

definition long_host :: host where
  "long_host =
     stub_host long_body ''{}'' [(long_body, JObj [(''content'', JStr long_content)]),
                                   (''{}'', JObj [])]"

text \<open>The suffix \<^verbatim>\<open>userPrompt\<close> appends for a role.\<close>

definition role_suffix :: "jsval \<Rightarrow> string" where
  "role_suffix role =
     (if role = JStr ''agent'' then prompt_agent
      else if role = JStr ''loan'' then prompt_loan
      else prompt_profile)"

text \<open>The page made of the three defaults, and the reply that carries a page.\<close>

definition default_page :: jsval where
  "default_page =
     JObj [(''meta'', default_meta), (''sections'', default_sections), (''html'', default_html)]"

definition success_reply :: "jsval \<Rightarrow> jsval \<Rightarrow> jsval \<Rightarrow> jsval \<Rightarrow> reply" where
  "success_reply page q role scraped =
     \<lparr>status_code = 200,
      payload = JObj [(''page'', page), (''q'', q), (''role'', role), (''scraped'', scraped)]\<rparr>"

definition error_reply :: "js_error \<Rightarrow> reply" where
  "error_reply err =
     \<lparr>status_code = 500,
      payload = JObj [(''error'', or_else (JStr (message err)) (JStr ''Generation failed.''))]\<rparr>"

text \<open>The model answers in prose instead of JSON; and the model's response has no
  \<^verbatim>\<open>choices\<close>.\<close>

definition chatty_body :: string where
  \<open>chatty_body = ''{"choices":[{"message":{"content":"Sure! Here is your page"}}]}''\<close>

definition chatty_data :: jsval where
  "chatty_data =
     JObj [(''choices'',
            JArr [JObj [(''message'',
                         JObj [(''content'', JStr ''Sure! Here is your page'')])]] [])]"

definition chatty_host :: host where
  "chatty_host = stub_host ''{}'' chatty_body [(''{}'', JObj []), (chatty_body, chatty_data)]"

definition empty_answer_body :: string where
  \<open>empty_answer_body = ''{"choices":[{"message":{"content":"{}"}}]}''\<close>

definition empty_answer_data :: jsval where
  "empty_answer_data =
     JObj [(''choices'', JArr [JObj [(''message'', JObj [(''content'', JStr ''{}'')])]] [])]"

definition empty_answer_host :: host where
  "empty_answer_host =
     stub_host ''{}'' empty_answer_body
       [(''{}'', JObj []), (empty_answer_body, empty_answer_data)]"

definition no_choices_body :: string where
  \<open>no_choices_body = ''{"id":"gen-1","choices":[]}''\<close>

definition no_choices_data :: jsval where
  "no_choices_data = JObj [(''id'', JStr ''gen-1''), (''choices'', JArr [] [])]"

definition no_choices_host :: host where
  "no_choices_host =
     stub_host ''{}'' no_choices_body [(''{}'', JObj []), (no_choices_body, no_choices_data)]"

text \<open>A page with a title, a description, one section and the page's html; and a DOM
  that is exact on one paragraph: the text of \<^verbatim>\<open><p>t</p>\<close> is \<open>t\<close>.\<close>

definition one_section_page ::
  "string \<Rightarrow> string \<Rightarrow> string \<Rightarrow> string \<Rightarrow> string \<Rightarrow> string \<Rightarrow> jsval" where
  "one_section_page title description section_id section_title section_html html =
     JObj [(''meta'', JObj [(''title'', JStr title), (''description'', JStr description)]),
           (''sections'',
              JArr [JObj [(''id'', JStr section_id), (''title'', JStr section_title),
                          (''html'', JStr section_html)]] []),
           (''html'', JStr html)]"

definition paragraph_text :: "string \<Rightarrow> string" where
  "paragraph_text markup =
     (if take 3 markup = ''<p>'' \<and> drop (length markup - 4) markup = ''</p>''
      then take (length markup - 7) (drop 3 markup)
      else markup)"

definition paragraph_dom :: dom where
  "paragraph_dom = \<lparr>textContent = paragraph_text, innerText = paragraph_text\<rparr>"

section \<open>Default filling: results\<close>

lemma own_prop_update:
  "own_prop (JObj (AList.update k x ps)) k' = (if k' = k then x else own_prop (JObj ps) k')"
  by (simp add: update_conv')

lemma nullish_assign_JObj: "nullish_assign (JObj ps) k d = Inr (JObj (filled ps k d))"
  by (simp add: nullish_assign_def get_prop_def filled_def)

lemma own_prop_filled:
  "own_prop (JObj (filled ps k d)) k' =
     (if k' = k then coalesce (own_prop (JObj ps) k) d else own_prop (JObj ps) k')"
  by (auto simp: filled_def coalesce_def own_prop_update simp del: own_prop.simps)

lemma toPage_JObj:
  "toPage (JObj ps) =
     Inr (JObj (filled (filled (filled ps ''meta'' default_meta) ''sections'' default_sections)
                  ''html'' default_html))"
  by (simp add: toPage_def nullish_assign_JObj)

text \<open>
  Claim C1, as the code has it. For every raw candidate that is a JSON object (the empty
  object and an object missing all three fields included), the three default-filling
  statements do not throw and leave an object whose \<^verbatim>\<open>meta\<close>, \<^verbatim>\<open>sections\<close> and
  \<^verbatim>\<open>html\<close> are present and not null: each is the candidate's own value when that is
  neither absent nor null, and otherwise its default. The default \<^verbatim>\<open>meta\<close> has the
  title "Generated Page" and the empty description, and the default \<^verbatim>\<open>html\<close> is a
  non-empty string. A value that is present is kept as it is, whatever its shape.
\<close>

theorem toPage_object_total:
  "\<exists>ps'. toPage (JObj ps) = Inr (JObj ps') \<and>
     own_prop (JObj ps') ''meta'' = coalesce (own_prop (JObj ps) ''meta'') default_meta \<and>
     own_prop (JObj ps') ''sections'' =
       coalesce (own_prop (JObj ps) ''sections'') default_sections \<and>
     own_prop (JObj ps') ''html'' = coalesce (own_prop (JObj ps) ''html'') default_html \<and>
     \<not> nullish (own_prop (JObj ps') ''meta'') \<and>
     \<not> nullish (own_prop (JObj ps') ''sections'') \<and>
     \<not> nullish (own_prop (JObj ps') ''html'') \<and>
     own_prop default_meta ''title'' = JStr ''Generated Page'' \<and>
     own_prop default_meta ''description'' = JStr '''' \<and>
     default_sections = JArr [] [] \<and>
     (\<exists>h. default_html = JStr h \<and> h \<noteq> [])"
proof -
  have defaults:
    "own_prop default_meta ''title'' = JStr ''Generated Page''"
    "own_prop default_meta ''description'' = JStr ''''"
    "default_sections = JArr [] []"
    "\<exists>h. default_html = JStr h \<and> h \<noteq> []"
    by (simp_all add: default_meta_def default_sections_def default_html_def)
  have not_null: "\<not> nullish default_meta" "\<not> nullish default_sections"
    "\<not> nullish default_html"
    by (simp_all add: default_meta_def default_sections_def default_html_def)
  show ?thesis
    using defaults not_null
    by (simp add: toPage_JObj own_prop_filled coalesce_def del: own_prop.simps)
qed

text \<open>The empty object \<^verbatim>\<open>{}\<close> becomes the page made of the three defaults.\<close>

theorem toPage_object_total_witness:
  "toPage (JObj []) =
     Inr (JObj [(''meta'', default_meta), (''sections'', default_sections),
                (''html'', default_html)])"
  using toPage_object_total [of "[]"]
  by (simp add: toPage_JObj filled_def)

text \<open>
  Claim C1 as the spec words it fails: on \<^verbatim>\<open>null\<close> the first statement reads a
  property of \<^verbatim>\<open>null\<close> and throws, and a field that is present is not checked, so an
  empty \<^verbatim>\<open>html\<close> string stays empty.
\<close>

theorem toPage_total_counterexample:
  "throws_TypeError (toPage JNull) \<and>
   toPage (JObj [(''meta'', default_meta), (''sections'', default_sections),
                 (''html'', JStr '''')]) =
     Inr (JObj [(''meta'', default_meta), (''sections'', default_sections),
                (''html'', JStr '''')])"
  by (simp add: toPage_def nullish_assign_def get_prop_def throws_TypeError_def
        default_meta_def default_sections_def)

text \<open>
  Claim C2, as the code has it. \<^verbatim>\<open>meta\<close> is defaulted as a whole and only when it is
  absent or null: the page's \<^verbatim>\<open>meta\<close> is then
  \<^verbatim>\<open>{ title: "Generated Page", description: "" }\<close>. A \<^verbatim>\<open>meta\<close> that is present and
  not null is kept unchanged, object or not; none of its fields is filled.
\<close>

theorem toPage_meta_whole:
  "\<exists>page'. toPage (JObj ps) = Inr page' \<and>
     own_prop page' ''meta'' =
       (if nullish (own_prop (JObj ps) ''meta'') then default_meta
        else own_prop (JObj ps) ''meta'')"
  by (simp add: toPage_JObj own_prop_filled coalesce_def del: own_prop.simps)

theorem toPage_meta_whole_witness:
  "\<exists>page'. toPage stub_candidate = Inr page' \<and>
     own_prop page' ''meta'' = JObj [(''title'', JStr ''123 Main St'')]"
  using toPage_meta_whole [of "[(''meta'', JObj [(''title'', JStr ''123 Main St'')]),
           (''sections'', JArr [] []), (''html'', JStr ''<h1>123 Main St</h1>'')]"]
  by (simp add: stub_candidate_def)

text \<open>
  Claim C2 as the spec words it fails on the spec's own example: the stub generator's
  candidate comes back unchanged, and its \<^verbatim>\<open>meta\<close> has no \<^verbatim>\<open>description\<close>.
\<close>

theorem toPage_meta_counterexample:
  "toPage stub_candidate = Inr stub_candidate \<and>
   own_prop (own_prop stub_candidate ''meta'') ''description'' = JUndefined \<and>
   own_prop (own_prop stub_candidate ''meta'') ''description'' \<noteq> JStr ''''"
  by (simp add: toPage_def nullish_assign_def get_prop_def stub_candidate_def)

section \<open>The Aggregator: results\<close>

lemma of_char_lower_ascii:
  "(of_char (lower_ascii c) :: nat) =
     (if 65 \<le> (of_char c :: nat) \<and> (of_char c :: nat) \<le> 90 then of_char c + 32
      else of_char c)"
  by (simp add: lower_ascii_def Let_def)

lemma lower_ascii_eq_iff:
  "lower_ascii c = l \<longleftrightarrow>
     (if 65 \<le> (of_char c :: nat) \<and> (of_char c :: nat) \<le> 90 then of_char c + 32
      else of_char c) = (of_char l :: nat)"
  using of_char_lower_ascii [of c] of_char_eq_iff [of "lower_ascii c" l, where ?'a = nat]
  by simp

lemma char_eq_by_code: "c = d \<longleftrightarrow> (of_char c :: nat) = of_char d"
  by simp

lemma lower_ascii_h: "lower_ascii c = CHR ''h'' \<longleftrightarrow> (c = CHR ''h'' \<or> c = CHR ''H'')"
  unfolding lower_ascii_eq_iff char_eq_by_code [of c] by (simp; arith)

lemma lower_ascii_t: "lower_ascii c = CHR ''t'' \<longleftrightarrow> (c = CHR ''t'' \<or> c = CHR ''T'')"
  unfolding lower_ascii_eq_iff char_eq_by_code [of c] by (simp; arith)

lemma lower_ascii_p: "lower_ascii c = CHR ''p'' \<longleftrightarrow> (c = CHR ''p'' \<or> c = CHR ''P'')"
  unfolding lower_ascii_eq_iff char_eq_by_code [of c] by (simp; arith)

lemma lower_ascii_s: "lower_ascii c = CHR ''s'' \<longleftrightarrow> (c = CHR ''s'' \<or> c = CHR ''S'')"
  unfolding lower_ascii_eq_iff char_eq_by_code [of c] by (simp; arith)

lemma lower_ascii_colon: "lower_ascii c = CHR '':'' \<longleftrightarrow> c = CHR '':''"
  unfolding lower_ascii_eq_iff char_eq_by_code [of c] by (simp; arith)

lemma lower_ascii_slash: "lower_ascii c = CHR ''/'' \<longleftrightarrow> c = CHR ''/''"
  unfolding lower_ascii_eq_iff char_eq_by_code [of c] by (simp; arith)

lemmas lower_ascii_pattern =
  lower_ascii_h lower_ascii_t lower_ascii_p lower_ascii_s lower_ascii_colon lower_ascii_slash

lemma starts_with_Cons:
  "starts_with (p # ps) s = (case s of [] \<Rightarrow> False | c # cs \<Rightarrow> c = p \<and> starts_with ps cs)"
  by (cases s) (auto simp: starts_with_def)

lemma starts_with_Nil: "starts_with [] s"
  by (simp add: starts_with_def)

text \<open>The regular expression of the source accepts what the spec's pattern describes.\<close>

lemma url_regex_test_iff: "url_regex_test s = matches_absolute_url s"
proof (cases s rule: url_regex_test.cases)
  case (1 c1 c2 c3 c4 rest)
  show ?thesis
    unfolding 1 matches_absolute_url_def
    by (auto simp: starts_with_Cons starts_with_Nil lower_ascii_pattern split: list.splits)
qed (simp_all add: matches_absolute_url_def starts_with_def)

lemma render_record_platform:
  "same_platform H H' \<Longrightarrow> render_record H' = render_record H"
  by (rule ext) (simp add: same_platform_def render_record_def)

lemma normalize_response_platform:
  assumes "same_platform H H'"
  shows "normalize_response H' data = normalize_response H data"
proof -
  have r: "render_record H' = render_record H"
    by (rule render_record_platform [OF assms])
  have s: "JSON_stringify H' = JSON_stringify H"
    using assms by (simp add: same_platform_def)
  show ?thesis
    unfolding normalize_response_def r s by (rule refl)
qed

lemma firecrawl_request_platform:
  "same_platform H H' \<Longrightarrow> firecrawl_request H' e b = firecrawl_request H e b"
  by (simp add: same_platform_def firecrawl_request_def FIRECRAWL_BASE_def)

lemma firecrawl_JStr:
  "firecrawl H (JStr q) =
     and_then (fetch H (selected_request H q)) (\<lambda>res.
       if \<not> ok res
       then Inl (Error (''Firecrawl '' @ fst (firecrawl_call q) @ '' failed: '' @
                        Number_toString H (of_nat (status res)) @ '' '' @
                        (case res_text res of Inl e \<Rightarrow> [] | Inr text \<Rightarrow> text)))
       else and_then (res_json H res) (normalize_response H))"
  by (cases "firecrawl_call q") (simp add: firecrawl_def selected_request_def cong: if_cong)

lemma firecrawl_platform:
  assumes "same_platform H H'"
    and "fetch H' (selected_request H q) = fetch H (selected_request H q)"
  shows "firecrawl H' (JStr q) = firecrawl H (JStr q)"
proof -
  have req: "selected_request H' q = selected_request H q"
    using assms(1) by (simp add: selected_request_def firecrawl_request_platform)
  have norm: "normalize_response H' = normalize_response H"
    using assms(1) by (auto simp: normalize_response_platform)
  have json: "res_json H' = res_json H"
    using assms(1) by (auto simp: res_json_def same_platform_def)
  have nts: "Number_toString H' = Number_toString H"
    using assms(1) by (simp add: same_platform_def)
  show ?thesis
    by (simp add: firecrawl_JStr req norm json nts assms(2) cong: if_cong)
qed

text \<open>
  Claim C5. For a query that is a string, \<^verbatim>\<open>firecrawl\<close> sends one request, decided by
  the spec's pattern on the trimmed query: on a match it posts the body
  \<^verbatim>\<open>{ url: q }\<close> (the query as given) to the base address followed by
  \<^verbatim>\<open>/scrape\<close>, on anything else it posts \<^verbatim>\<open>{ query: q, limit: 5 }\<close> to the base
  address followed by \<^verbatim>\<open>/search\<close>; what it returns is made from the answer to that
  request: a rejected request, a response that is not ok and a body that does not parse
  are its failure, a parsed body is aggregated. The other capability is never consulted:
  on two hosts that answer the selected request alike and differ elsewhere in their
  network only, \<^verbatim>\<open>firecrawl\<close> returns the same.
\<close>

theorem firecrawl_selects:
  "firecrawl_call q =
     (if matches_absolute_url (trim q) then (''/scrape'', JObj [(''url'', JStr q)])
      else (''/search'', JObj [(''query'', JStr q), (''limit'', JNum 5)])) \<and>
   firecrawl H (JStr q) =
     (let endpoint = (if matches_absolute_url (trim q) then ''/scrape'' else ''/search'');
          body = (if matches_absolute_url (trim q) then JObj [(''url'', JStr q)]
                  else JObj [(''query'', JStr q), (''limit'', JNum 5)])
      in and_then (fetch H (firecrawl_request H endpoint body)) (\<lambda>res.
           if \<not> ok res
           then Inl (Error (''Firecrawl '' @ endpoint @ '' failed: '' @
                            Number_toString H (of_nat (status res)) @ '' '' @
                            (case res_text res of Inl e \<Rightarrow> [] | Inr t \<Rightarrow> t)))
           else and_then (res_json H res) (normalize_response H))) \<and>
   req_url (firecrawl_request H e b) = FIRECRAWL_BASE H @ e \<and>
   req_method (firecrawl_request H e b) = ''POST'' \<and>
   req_body (firecrawl_request H e b) = JSON_stringify H b \<and>
   (same_platform H H' \<longrightarrow>
    fetch H' (selected_request H q) = fetch H (selected_request H q) \<longrightarrow>
    firecrawl H' (JStr q) = firecrawl H (JStr q))"
proof -
  have call: "firecrawl_call q =
     (if matches_absolute_url (trim q) then (''/scrape'', JObj [(''url'', JStr q)])
      else (''/search'', JObj [(''query'', JStr q), (''limit'', JNum 5)]))"
    by (simp add: firecrawl_call_def url_regex_test_iff)
  have sent: "firecrawl H (JStr q) =
     (let endpoint = (if matches_absolute_url (trim q) then ''/scrape'' else ''/search'');
          body = (if matches_absolute_url (trim q) then JObj [(''url'', JStr q)]
                  else JObj [(''query'', JStr q), (''limit'', JNum 5)])
      in and_then (fetch H (firecrawl_request H endpoint body)) (\<lambda>res.
           if \<not> ok res
           then Inl (Error (''Firecrawl '' @ endpoint @ '' failed: '' @
                            Number_toString H (of_nat (status res)) @ '' '' @
                            (case res_text res of Inl e \<Rightarrow> [] | Inr t \<Rightarrow> t)))
           else and_then (res_json H res) (normalize_response H)))"
    by (cases "matches_absolute_url (trim q)")
       (simp_all add: firecrawl_JStr selected_request_def call cong: if_cong)
  have request:
    "req_url (firecrawl_request H e b) = FIRECRAWL_BASE H @ e"
    "req_method (firecrawl_request H e b) = ''POST''"
    "req_body (firecrawl_request H e b) = JSON_stringify H b"
    by (simp_all add: firecrawl_request_def)
  have alone: "same_platform H H' \<longrightarrow>
    fetch H' (selected_request H q) = fetch H (selected_request H q) \<longrightarrow>
    firecrawl H' (JStr q) = firecrawl H (JStr q)"
    by (simp add: firecrawl_platform)
  show ?thesis
    using call sent request alone by (intro conjI)
qed

text \<open>
  A padded upper-case URL goes to \<^verbatim>\<open>/scrape\<close> as given and a street address to
  \<^verbatim>\<open>/search\<close>. The request is really sent: on a host whose network refuses everything
  but \<^verbatim>\<open>/scrape\<close> the URL is aggregated and the address fails with the network's
  error, and on a host that refuses everything but \<^verbatim>\<open>/search\<close> it is the other way
  round.
\<close>

theorem firecrawl_selects_witness:
  "firecrawl_call ''  HTTPS://Example.com/listing '' =
     (''/scrape'', JObj [(''url'', JStr ''  HTTPS://Example.com/listing '')]) \<and>
   firecrawl_call ''123 Main St, Springfield'' =
     (''/search'', JObj [(''query'', JStr ''123 Main St, Springfield''), (''limit'', JNum 5)]) \<and>
   firecrawl scrape_only_host (JStr ''  HTTPS://Example.com/listing '') = Inr (JStr ''{}'') \<and>
   firecrawl scrape_only_host (JStr ''123 Main St, Springfield'') =
     Inl (TypeError ''fetch failed'') \<and>
   firecrawl search_only_host (JStr ''123 Main St, Springfield'') = Inr (JStr ''{}'') \<and>
   firecrawl search_only_host (JStr ''  HTTPS://Example.com/listing '') =
     Inl (TypeError ''fetch failed'') \<and>
   firecrawl plain_host (JStr ''  HTTPS://Example.com/listing '') =
     firecrawl scrape_only_host (JStr ''  HTTPS://Example.com/listing '')"
proof -
  let ?u = "''  HTTPS://Example.com/listing ''"
  let ?k = "''123 Main St, Springfield''"
  have u: "matches_absolute_url (trim ?u)"
    unfolding url_regex_test_iff [symmetric]
    by (simp add: trim_def is_ws_def starts_with_def)
  have k: "\<not> matches_absolute_url (trim ?k)"
    unfolding url_regex_test_iff [symmetric]
    by (simp add: trim_def is_ws_def starts_with_def)
  note hosts = scrape_only_host_def search_only_host_def plain_host_def stub_host_def
  note run = FIRECRAWL_BASE_def firecrawl_request_def ok_def res_json_def table_parse_def
    table_stringify_def normalize_response_def opt_prop_def OPENROUTER_URL_def
  have a: "firecrawl_call ?u = (''/scrape'', JObj [(''url'', JStr ?u)])"
    using firecrawl_selects [of ?u plain_host e b plain_host] u by simp
  have b: "firecrawl_call ?k =
           (''/search'', JObj [(''query'', JStr ?k), (''limit'', JNum 5)])"
    using firecrawl_selects [of ?k plain_host e b plain_host] k by simp
  have c: "firecrawl scrape_only_host (JStr ?u) = Inr (JStr ''{}'')"
    using firecrawl_selects [of ?u scrape_only_host e b scrape_only_host] u
    by (simp add: hosts run)
  have d: "firecrawl scrape_only_host (JStr ?k) = Inl (TypeError ''fetch failed'')"
    using firecrawl_selects [of ?k scrape_only_host e b scrape_only_host] k
    by (simp add: hosts run)
  have e: "firecrawl search_only_host (JStr ?k) = Inr (JStr ''{}'')"
    using firecrawl_selects [of ?k search_only_host e b search_only_host] k
    by (simp add: hosts run)
  have f: "firecrawl search_only_host (JStr ?u) = Inl (TypeError ''fetch failed'')"
    using firecrawl_selects [of ?u search_only_host e b search_only_host] u
    by (simp add: hosts run)
  have g: "firecrawl plain_host (JStr ?u) = Inr (JStr ''{}'')"
    using firecrawl_selects [of ?u plain_host e b plain_host] u
    by (simp add: hosts run)
  show ?thesis
    using a b c d e f g by simp
qed

lemma firecrawl_provider:
  assumes "provider_returns H q data"
  shows "firecrawl H (JStr q) = normalize_response H data"
  using assms
  by (auto simp: provider_returns_def firecrawl_JStr split: sum.splits)

lemma map_throwing_all:
  "(\<And>x. x \<in> set xs \<Longrightarrow> f x = Inr (g x)) \<Longrightarrow> map_throwing f xs = Inr (map g xs)"
  by (induction xs) simp_all

lemma render_record_plain:
  assumes "provider_record r"
  shows "render_record H r = Inr (record_text r)"
proof (cases r)
  case (JObj fs)
  have t: "to_string (Number_toString H) (coalesce (own_prop (JObj fs) k) (JStr [])) =
           Inr (field_text (JObj fs) k)" if "text_or_absent (map_of fs k)" for k
    using that by (cases "map_of fs k" rule: text_or_absent.cases) (simp_all add: coalesce_def)
  show ?thesis
    using assms unfolding JObj
    by (simp add: render_record_def get_prop_def record_text_def t del: own_prop.simps field_text.simps)
qed (use assms in simp_all)

lemma map_throwing_first_failure:
  "(\<And>x. x \<in> set pre \<Longrightarrow> f x = Inr (g x)) \<Longrightarrow> f r = Inl e \<Longrightarrow>
   map_throwing f (pre @ r # post) = Inl e"
  by (induction pre) simp_all

lemma render_record_nullish:
  "nullish r \<Longrightarrow> throws_TypeError (render_record H r)"
  by (simp add: render_record_def get_prop_def throws_TypeError_def)

text \<open>
  Claim C6, as the code has it. When the provider's response has an array under
  \<^verbatim>\<open>results\<close> whose elements are records (objects whose \<^verbatim>\<open>title\<close> and \<^verbatim>\<open>content\<close>
  are strings, null or absent), the aggregated content is the records' texts, each title,
  newline, content with an absent field as the empty string, joined in order with the
  separator of two newlines, three dashes and two newlines. When \<^verbatim>\<open>results\<close> is not an
  array, it is the response's \<^verbatim>\<open>content\<close> when that is present and not null, and
  otherwise the serialization of the whole response; no exception is raised on that path.
  An exception is raised on the other: an element of \<^verbatim>\<open>results\<close> that is null or
  undefined, after records, makes \<^verbatim>\<open>firecrawl\<close> throw a TypeError.
\<close>

theorem firecrawl_shapes:
  "(provider_returns H q data \<longrightarrow> opt_prop data ''results'' = JArr rs ps \<longrightarrow>
      (\<forall>r \<in> set rs. provider_record r) \<longrightarrow>
      firecrawl H (JStr q) =
        Inr (JStr (join ''\<newline>\<newline>---\<newline>\<newline>'' (map record_text rs)))) \<and>
   (provider_returns H q data \<longrightarrow> \<not> is_array (opt_prop data ''results'') \<longrightarrow>
      firecrawl H (JStr q) =
        Inr (if nullish (opt_prop data ''content'') then JStr (JSON_stringify H data)
             else opt_prop data ''content'')) \<and>
   (provider_returns H q data \<longrightarrow> opt_prop data ''results'' = JArr (pre @ r # post) ps \<longrightarrow>
      (\<forall>x \<in> set pre. provider_record x) \<longrightarrow> nullish r \<longrightarrow>
      throws_TypeError (firecrawl H (JStr q)))"
proof (intro conjI impI)
  assume p: "provider_returns H q data" and r: "opt_prop data ''results'' = JArr rs ps"
    and recs: "\<forall>r \<in> set rs. provider_record r"
  have sep: "''\<newline>\<newline>---\<newline>\<newline>'' = separator"
    by (simp add: separator_def)
  have "map_throwing (render_record H) rs = Inr (map record_text rs)"
    using recs by (intro map_throwing_all) (simp add: render_record_plain)
  then show "firecrawl H (JStr q) =
             Inr (JStr (join ''\<newline>\<newline>---\<newline>\<newline>'' (map record_text rs)))"
    unfolding sep by (simp add: firecrawl_provider [OF p] normalize_response_def r)
next
  assume p: "provider_returns H q data" and r: "\<not> is_array (opt_prop data ''results'')"
  show "firecrawl H (JStr q) =
        Inr (if nullish (opt_prop data ''content'') then JStr (JSON_stringify H data)
             else opt_prop data ''content'')"
    using r
    by (cases "opt_prop data ''results''")
       (simp_all add: firecrawl_provider [OF p] normalize_response_def Let_def)
next
  assume p: "provider_returns H q data"
    and r: "opt_prop data ''results'' = JArr (pre @ r # post) ps"
    and recs: "\<forall>x \<in> set pre. provider_record x" and n: "nullish r"
  obtain m where m: "render_record H r = Inl (TypeError m)"
    using render_record_nullish [OF n, of H]
    by (auto simp: throws_TypeError_def split: sum.splits js_error.splits)
  have "map_throwing (render_record H) (pre @ r # post) = Inl (TypeError m)"
    using recs by (intro map_throwing_first_failure [where g = record_text] m)
      (simp add: render_record_plain)
  then show "throws_TypeError (firecrawl H (JStr q))"
    by (simp add: firecrawl_provider [OF p] normalize_response_def r throws_TypeError_def)
qed

lemma stub_provider_returns:
  assumes "map_of tab provider_body = Some data"
  shows "provider_returns (stub_host provider_body llm_body tab) q data"
proof -
  have "req_url (selected_request (stub_host provider_body llm_body tab) q) \<noteq> OPENROUTER_URL"
    by (simp add: selected_request_def firecrawl_request_def FIRECRAWL_BASE_def stub_host_def
          firecrawl_call_def OPENROUTER_URL_def Let_def)
  then show ?thesis
    using assms
    by (simp add: provider_returns_def stub_host_def ok_def res_json_def table_parse_def)
qed

text \<open>The spec's scenario with its literal separator, a scraped page, an empty object,
  which is serialized, and a \<^verbatim>\<open>null\<close> among the results.\<close>

theorem firecrawl_shapes_witness:
  "firecrawl listing_host (JStr ''123 Main St, Springfield'') =
     Inr (JStr ''123 Main St Listing\<newline>3bd/2ba, $450,000\<newline>\<newline>---\<newline>\<newline>Springfield\<newline>'') \<and>
   firecrawl scraped_host (JStr ''https://example.com/listing'') =
     Inr (JStr ''Open house on Sunday'') \<and>
   firecrawl plain_host (JStr ''123 Main St, Springfield'') = Inr (JStr ''{}'') \<and>
   throws_TypeError (firecrawl null_record_host (JStr ''123 Main St, Springfield''))"
proof -
  let ?q = "''123 Main St, Springfield''"
  let ?u = "''https://example.com/listing''"
  have a: "provider_returns listing_host ?q listing_data"
    unfolding listing_host_def by (rule stub_provider_returns) simp
  have b: "provider_returns scraped_host ?u (JObj [(''content'', JStr ''Open house on Sunday'')])"
    unfolding scraped_host_def by (rule stub_provider_returns) simp
  have c: "provider_returns plain_host ?q (JObj [])"
    unfolding plain_host_def by (rule stub_provider_returns) simp
  have d: "provider_returns null_record_host ?q null_record_data"
    unfolding null_record_host_def by (rule stub_provider_returns) simp
  have s: "JSON_stringify plain_host (JObj []) = ''{}''"
    by (simp add: plain_host_def stub_host_def table_stringify_def)
  show ?thesis
    using firecrawl_shapes [of listing_host ?q listing_data
        "[JObj [(''title'', JStr ''123 Main St Listing''),
                (''content'', JStr ''3bd/2ba, $450,000'')],
          JObj [(''title'', JStr ''Springfield'')]]" "[]"]
      firecrawl_shapes [of scraped_host ?u "JObj [(''content'', JStr ''Open house on Sunday'')]"]
      firecrawl_shapes [of plain_host ?q "JObj []"]
      firecrawl_shapes [of null_record_host ?q null_record_data _ "[]" "[]" JNull "[]"]
      a b c d s
    by (simp add: listing_data_def null_record_data_def opt_prop_def record_text_def)
qed

text \<open>
  Claim C6 as the spec words it fails: the response \<^verbatim>\<open>{"results":[null]}\<close> has an
  array under \<^verbatim>\<open>results\<close>, and on it \<^verbatim>\<open>firecrawl\<close> throws a TypeError instead of
  degrading to text; \<^verbatim>\<open>POST\<close> answers 500.
\<close>

theorem firecrawl_null_record_counterexample:
  "is_array (opt_prop null_record_data ''results'') \<and>
   throws_TypeError (firecrawl null_record_host (JStr ''123 Main St, Springfield'')) \<and>
   status_code (POST null_record_host (Inr (JObj [(''q'', JStr ''123 Main St, Springfield'')])))
     = 500"
proof -
  let ?q = "''123 Main St, Springfield''"
  have p: "provider_returns null_record_host ?q null_record_data"
    unfolding null_record_host_def by (rule stub_provider_returns) simp
  have thrown: "firecrawl null_record_host (JStr ?q) =
                Inl (TypeError (''Cannot read properties of null (reading '' @ [CHR 0x27] @
                                ''title'' @ [CHR 0x27] @ '')''))"
    by (simp add: firecrawl_provider [OF p] normalize_response_def null_record_data_def
          opt_prop_def render_record_def get_prop_def)
  have "try_block null_record_host (Inr (JObj [(''q'', JStr ?q)])) =
        Inl (TypeError (''Cannot read properties of null (reading '' @ [CHR 0x27] @
                        ''title'' @ [CHR 0x27] @ '')''))"
    by (simp add: try_block_def destructure_def thrown)
  then have "status_code (POST null_record_host (Inr (JObj [(''q'', JStr ?q)]))) = 500"
    by (simp add: POST_def)
  then show ?thesis
    using thrown by (simp add: null_record_data_def opt_prop_def throws_TypeError_def)
qed

section \<open>The Composer and the pipeline: results\<close>

lemma userPrompt_strings:
  "userPrompt H role (JStr q) (JStr scraped) =
     Inr (prompt_query @ q @ prompt_scraped @ take 15000 scraped @ prompt_goals @
          role_suffix role)"
  by (simp add: userPrompt_def or_else_def role_suffix_def Let_def)

text \<open>
  Claim C3, as the code has it. The cap is applied by the Composer, not before it: for a
  query and an aggregated content that are strings, the user prompt embeds the first
  15000 characters of the content between its fixed pieces and drops the rest, so the
  embedded content has at most 15000 characters and is the whole content when that is
  no longer. The Aggregator's own output is not capped.
\<close>

theorem userPrompt_caps:
  "userPrompt H role (JStr q) (JStr scraped) =
     Inr (prompt_query @ q @ prompt_scraped @ take 15000 scraped @ prompt_goals @
          role_suffix role) \<and>
   length (take 15000 scraped) \<le> 15000 \<and>
   (length scraped \<le> 15000 \<longrightarrow> take 15000 scraped = scraped)"
  by (simp add: userPrompt_strings)

theorem userPrompt_caps_witness:
  "userPrompt long_host (JStr ''agent'') (JStr ''listing'') (JStr long_content) =
     Inr (prompt_query @ ''listing'' @ prompt_scraped @ replicate 15000 (CHR ''a'') @
          prompt_goals @ prompt_agent) \<and>
   userPrompt long_host (JStr ''loan'') (JStr ''rates'') (JStr ''3bd/2ba'') =
     Inr (prompt_query @ ''rates'' @ prompt_scraped @ ''3bd/2ba'' @ prompt_goals @ prompt_loan)"
  using userPrompt_caps [of long_host "JStr ''agent''" "''listing''" long_content]
    userPrompt_caps [of long_host "JStr ''loan''" "''rates''" "''3bd/2ba''"]
  by (simp add: long_content_def role_suffix_def)

text \<open>
  Claim C3 as the spec words it fails: for a scraped page of 15001 characters the
  Aggregator returns all 15001, and that is the value \<^verbatim>\<open>POST\<close> hands to the Composer.
\<close>

theorem aggregated_cap_counterexample:
  "firecrawl long_host (JStr ''https://example.com/listing'') = Inr (JStr long_content) \<and>
   length long_content = 15001 \<and> \<not> length long_content \<le> 15000"
proof -
  have "provider_returns long_host ''https://example.com/listing''
          (JObj [(''content'', JStr long_content)])"
    unfolding long_host_def by (rule stub_provider_returns) simp
  then show ?thesis
    by (simp add: firecrawl_provider normalize_response_def opt_prop_def long_content_def)
qed

lemma try_block_run:
  assumes "destructure body = Inr (q, role)" and "truthy q" and "firecrawl H q = Inr scraped"
  shows "try_block H (Inr body) =
           and_then (generatePageJSON H q role scraped) (\<lambda>page.
           and_then (toPage page) (\<lambda>page. Inr (success_reply page q role scraped)))"
  using assms by (simp add: try_block_def success_reply_def)

lemma generatePageJSON_run:
  assumes "userPrompt H role q scraped = Inr user" and "llm_returns H user data"
  shows "generatePageJSON H q role scraped =
           and_then (to_string (Number_toString H) (llm_text data)) (JSON_parse H)"
  using assms
  by (auto simp: generatePageJSON_def llm_returns_def split: sum.splits)

lemma POST_error: "try_block H parsed = Inl err \<Longrightarrow> POST H parsed = error_reply err"
  by (simp add: POST_def error_reply_def)

lemma POST_reply: "try_block H parsed = Inr r \<Longrightarrow> POST H parsed = r"
  by (simp add: POST_def)

lemma toPage_empty: "toPage (JObj []) = Inr default_page"
  by (simp add: toPage_JObj filled_def default_page_def)

lemma stub_llm_returns:
  assumes "map_of tab llm_body = Some data"
  shows "llm_returns (stub_host provider_body llm_body tab) user data"
  using assms
  by (simp add: llm_returns_def stub_host_def openrouter_request_def ok_def res_json_def
        table_parse_def)

lemma plain_scraped:
  assumes "map_of tab ''{}'' = Some (JObj [])"
    and "find (\<lambda>entry. snd entry = JObj []) tab = Some (''{}'', JObj [])"
  shows "firecrawl (stub_host ''{}'' llm_body tab) (JStr q) = Inr (JStr ''{}'')"
proof -
  have "JSON_stringify (stub_host ''{}'' llm_body tab) (JObj []) = ''{}''"
    using assms(2) by (simp add: stub_host_def table_stringify_def)
  then show ?thesis
    by (simp add: firecrawl_provider [OF stub_provider_returns [OF assms(1)]]
          normalize_response_def opt_prop_def)
qed

lemma pipeline_empty_object:
  assumes "destructure body = Inr (q, role)" and "truthy q"
    and "firecrawl H q = Inr scraped"
    and "userPrompt H role q scraped = Inr user"
    and "llm_returns H user data"
    and "to_string (Number_toString H) (llm_text data) = Inr text"
    and "JSON_parse H text = Inr (JObj [])"
  shows "POST H (Inr body) = success_reply default_page q role scraped"
proof -
  have "generatePageJSON H q role scraped = Inr (JObj [])"
    using assms(6,7) by (simp add: generatePageJSON_run [OF assms(4,5)])
  then have "try_block H (Inr body) = Inr (success_reply default_page q role scraped)"
    by (simp add: try_block_run [OF assms(1-3)] toPage_empty)
  then show ?thesis
    by (rule POST_reply)
qed

lemma stub_pipeline_empty_object:
  assumes "map_of tab ''{}'' = Some (JObj [])"
    and "find (\<lambda>entry. snd entry = JObj []) tab = Some (''{}'', JObj [])"
    and "map_of tab llm_body = Some data"
    and "to_string (\<lambda>n. []) (llm_text data) = Inr ''{}''"
    and "destructure body = Inr (JStr q, role)" and "q \<noteq> []"
  shows "POST (stub_host ''{}'' llm_body tab) (Inr body) =
           success_reply default_page (JStr q) role (JStr ''{}'')"
proof -
  let ?H = "stub_host ''{}'' llm_body tab"
  have nts: "Number_toString ?H = (\<lambda>n. [])"
    by (simp add: stub_host_def)
  have p: "JSON_parse ?H ''{}'' = Inr (JObj [])"
    using assms(1) by (simp add: stub_host_def table_parse_def)
  show ?thesis
    by (rule pipeline_empty_object [OF assms(5) _ plain_scraped [OF assms(1,2)]
          userPrompt_strings stub_llm_returns [OF assms(3)] _ p])
       (simp_all add: assms(4,6) nts)
qed

text \<open>
  Claim C7. When the stages before it succeed and the text taken from the model's
  response does not parse, \<^verbatim>\<open>POST\<close> answers with status 500 and the parse error's
  message (or "Generation failed." when that is empty); the reply carries no page.
\<close>

theorem parse_failure_surfaces:
  assumes "destructure body = Inr (q, role)" and "truthy q"
    and "firecrawl H q = Inr scraped"
    and "userPrompt H role q scraped = Inr user"
    and "llm_returns H user data"
    and "to_string (Number_toString H) (llm_text data) = Inr text"
    and "JSON_parse H text = Inl err"
  shows "POST H (Inr body) = error_reply err \<and>
         status_code (POST H (Inr body)) = 500 \<and>
         own_prop (payload (POST H (Inr body))) ''page'' = JUndefined"
proof -
  have "generatePageJSON H q role scraped = Inl err"
    using assms(6,7) by (simp add: generatePageJSON_run [OF assms(4,5)])
  then have "try_block H (Inr body) = Inl err"
    by (simp add: try_block_run [OF assms(1-3)])
  then have "POST H (Inr body) = error_reply err"
    by (rule POST_error)
  then show ?thesis
    by (simp add: error_reply_def)
qed

theorem parse_failure_surfaces_witness:
  "POST chatty_host (Inr (JObj [(''q'', JStr ''123 Main St'')])) =
     \<lparr>status_code = 500, payload = JObj [(''error'', JStr ''Unexpected token'')]\<rparr>"
proof -
  let ?body = "JObj [(''q'', JStr ''123 Main St'')]"
  let ?user = "prompt_query @ ''123 Main St'' @ prompt_scraped @ ''{}'' @ prompt_goals @
               prompt_agent"
  have d: "destructure ?body = Inr (JStr ''123 Main St'', JStr ''agent'')"
    by (simp add: destructure_def)
  have t: "truthy (JStr ''123 Main St'')"
    by simp
  have f: "firecrawl chatty_host (JStr ''123 Main St'') = Inr (JStr ''{}'')"
    unfolding chatty_host_def by (rule plain_scraped) simp_all
  have u: "userPrompt chatty_host (JStr ''agent'') (JStr ''123 Main St'') (JStr ''{}'') =
           Inr ?user"
    by (simp add: userPrompt_strings role_suffix_def)
  have l: "llm_returns chatty_host ?user chatty_data"
    unfolding chatty_host_def by (rule stub_llm_returns) (simp add: chatty_body_def)
  have s: "to_string (Number_toString chatty_host) (llm_text chatty_data) =
           Inr ''Sure! Here is your page''"
    by (simp add: llm_text_def chatty_data_def opt_prop_def coalesce_def)
  have p: "JSON_parse chatty_host ''Sure! Here is your page'' =
           Inl (SyntaxError ''Unexpected token'')"
    by (simp add: chatty_host_def stub_host_def table_parse_def chatty_body_def)
  show ?thesis
    using parse_failure_surfaces [OF d t f u l s p]
    by (simp add: error_reply_def or_else_def)
qed

text \<open>
  Claim C8. When the stages before it succeed and the text taken from the model's
  response parses to the empty object, \<^verbatim>\<open>POST\<close> answers with status 200 and the page
  made of the three defaults, next to the query, the role and the aggregated content.
\<close>

theorem empty_object_defaults:
  assumes "destructure body = Inr (q, role)" and "truthy q"
    and "firecrawl H q = Inr scraped"
    and "userPrompt H role q scraped = Inr user"
    and "llm_returns H user data"
    and "to_string (Number_toString H) (llm_text data) = Inr text"
    and "JSON_parse H text = Inr (JObj [])"
  shows "POST H (Inr body) = success_reply default_page q role scraped \<and>
         status_code (POST H (Inr body)) = 200 \<and>
         own_prop (payload (POST H (Inr body))) ''page'' =
           JObj [(''meta'', JObj [(''title'', JStr ''Generated Page''),
                                  (''description'', JStr '''')]),
                 (''sections'', JArr [] []),
                 (''html'', JStr ''<main class='container'><h1>Generated Page</h1></main>'')]"
proof -
  have "POST H (Inr body) = success_reply default_page q role scraped"
    by (rule pipeline_empty_object [OF assms])
  then show ?thesis
    by (simp add: success_reply_def default_page_def default_meta_def default_sections_def
          default_html_def)
qed

theorem empty_object_defaults_witness:
  "POST empty_answer_host (Inr (JObj [(''q'', JStr ''123 Main St''), (''role'', JStr ''loan'')])) =
     success_reply default_page (JStr ''123 Main St'') (JStr ''loan'') (JStr ''{}'')"
proof -
  let ?body = "JObj [(''q'', JStr ''123 Main St''), (''role'', JStr ''loan'')]"
  let ?user = "prompt_query @ ''123 Main St'' @ prompt_scraped @ ''{}'' @ prompt_goals @
               prompt_loan"
  have d: "destructure ?body = Inr (JStr ''123 Main St'', JStr ''loan'')"
    by (simp add: destructure_def)
  have t: "truthy (JStr ''123 Main St'')"
    by simp
  have f: "firecrawl empty_answer_host (JStr ''123 Main St'') = Inr (JStr ''{}'')"
    unfolding empty_answer_host_def by (rule plain_scraped) simp_all
  have u: "userPrompt empty_answer_host (JStr ''loan'') (JStr ''123 Main St'') (JStr ''{}'') =
           Inr ?user"
    by (simp add: userPrompt_strings role_suffix_def)
  have l: "llm_returns empty_answer_host ?user empty_answer_data"
    unfolding empty_answer_host_def
    by (rule stub_llm_returns) (simp add: empty_answer_body_def)
  have s: "to_string (Number_toString empty_answer_host) (llm_text empty_answer_data) =
           Inr ''{}''"
    by (simp add: llm_text_def empty_answer_data_def opt_prop_def coalesce_def)
  have p: "JSON_parse empty_answer_host ''{}'' = Inr (JObj [])"
    by (simp add: empty_answer_host_def stub_host_def table_parse_def)
  show ?thesis
    using empty_object_defaults [OF d t f u l s p] by simp
qed

text \<open>
  Claim C10. When the model's call succeeds and its response has nothing at
  \<^verbatim>\<open>choices[0].message.content\<close> (a link of the chain or the content itself absent or
  null), the text parsed is the literal \<^verbatim>\<open>{}\<close>; with \<^verbatim>\<open>JSON.parse\<close> reading that as
  the empty object, \<^verbatim>\<open>POST\<close> answers with status 200 and the page made of the three
  defaults.
\<close>

theorem missing_content_defaults:
  assumes "destructure body = Inr (q, role)" and "truthy q"
    and "firecrawl H q = Inr scraped"
    and "userPrompt H role q scraped = Inr user"
    and "llm_returns H user data"
    and "nullish (opt_prop (opt_prop (opt_first (opt_prop data ''choices'')) ''message'')
                    ''content'')"
    and "JSON_parse H ''{}'' = Inr (JObj [])"
  shows "llm_text data = JStr ''{}'' \<and>
         generatePageJSON H q role scraped = Inr (JObj []) \<and>
         POST H (Inr body) = success_reply default_page q role scraped \<and>
         status_code (POST H (Inr body)) = 200"
proof -
  have lit: "llm_text data = JStr ''{}''"
    using assms(6) by (simp add: llm_text_def coalesce_def)
  have gen: "generatePageJSON H q role scraped = Inr (JObj [])"
    using assms(7) by (simp add: generatePageJSON_run [OF assms(4,5)] lit)
  then have "try_block H (Inr body) = Inr (success_reply default_page q role scraped)"
    by (simp add: try_block_run [OF assms(1-3)] toPage_empty)
  then have "POST H (Inr body) = success_reply default_page q role scraped"
    by (rule POST_reply)
  then show ?thesis
    using lit gen by (simp add: success_reply_def)
qed

theorem missing_content_defaults_witness:
  "POST no_choices_host (Inr (JObj [(''q'', JStr ''123 Main St'')])) =
     success_reply default_page (JStr ''123 Main St'') (JStr ''agent'') (JStr ''{}'')"
proof -
  let ?body = "JObj [(''q'', JStr ''123 Main St'')]"
  let ?user = "prompt_query @ ''123 Main St'' @ prompt_scraped @ ''{}'' @ prompt_goals @
               prompt_agent"
  have d: "destructure ?body = Inr (JStr ''123 Main St'', JStr ''agent'')"
    by (simp add: destructure_def)
  have t: "truthy (JStr ''123 Main St'')"
    by simp
  have f: "firecrawl no_choices_host (JStr ''123 Main St'') = Inr (JStr ''{}'')"
    unfolding no_choices_host_def by (rule plain_scraped) simp_all
  have u: "userPrompt no_choices_host (JStr ''agent'') (JStr ''123 Main St'') (JStr ''{}'') =
           Inr ?user"
    by (simp add: userPrompt_strings role_suffix_def)
  have l: "llm_returns no_choices_host ?user no_choices_data"
    unfolding no_choices_host_def
    by (rule stub_llm_returns) (simp add: no_choices_body_def)
  have n: "nullish (opt_prop (opt_prop (opt_first (opt_prop no_choices_data ''choices''))
                      ''message'') ''content'')"
    by (simp add: no_choices_data_def opt_prop_def)
  have p: "JSON_parse no_choices_host ''{}'' = Inr (JObj [])"
    by (simp add: no_choices_host_def stub_host_def table_parse_def)
  show ?thesis
    using missing_content_defaults [OF d t f u l n p] by simp
qed

lemma try_block_outcomes:
  assumes "destructure body = Inr (q, role)" and "truthy q"
  shows "(\<exists>err. try_block H (Inr body) = Inl err) \<or>
         (\<exists>page scraped. try_block H (Inr body) = Inr (success_reply page q role scraped))"
proof (cases "firecrawl H q")
  case (Inl e)
  then show ?thesis using assms by (simp add: try_block_def)
next
  case (Inr scraped)
  note run = try_block_run [OF assms Inr]
  show ?thesis
  proof (cases "generatePageJSON H q role scraped")
    case (Inl e)
    then show ?thesis by (simp add: run)
  next
    case gen: (Inr page)
    show ?thesis
      by (cases "toPage page") (auto simp: run gen)
  qed
qed

lemma POST_status_processed:
  assumes "destructure body = Inr (q, role)" and "truthy q"
  shows "status_code (POST H (Inr body)) = 500 \<or> status_code (POST H (Inr body)) = 200"
  using try_block_outcomes [OF assms, of H]
  by (auto simp: POST_def success_reply_def)

text \<open>
  Claim C4, as the code has it. \<^verbatim>\<open>role\<close> is \<^verbatim>\<open>"agent"\<close> when the body has no
  \<^verbatim>\<open>role\<close>. \<^verbatim>\<open>POST\<close> answers 400 exactly when the body is not null and its \<^verbatim>\<open>q\<close> is
  falsy: absent, null, the empty string, zero or false. The query is not trimmed for this
  test, so a query of white space only is processed. A body that is null, or that could
  not be read, ends in the 500 of the catch clause.
\<close>

theorem POST_client_error:
  "(status_code (POST H (Inr body)) = 400 \<longleftrightarrow>
      \<not> nullish body \<and> \<not> truthy (own_prop body ''q'')) \<and>
   (\<not> nullish body \<longrightarrow> own_prop body ''role'' = JUndefined \<longrightarrow>
      destructure body = Inr (own_prop body ''q'', JStr ''agent'')) \<and>
   POST H (Inl err) = error_reply err"
proof (intro conjI impI)
  show "status_code (POST H (Inr body)) = 400 \<longleftrightarrow>
        \<not> nullish body \<and> \<not> truthy (own_prop body ''q'')"
  proof (cases "nullish body")
    case True
    then show ?thesis by (simp add: POST_def try_block_def destructure_def)
  next
    case False
    then obtain role where d: "destructure body = Inr (own_prop body ''q'', role)"
      by (simp add: destructure_def)
    show ?thesis
    proof (cases "truthy (own_prop body ''q'')")
      case True
      then show ?thesis using POST_status_processed [OF d True, of H] False by auto
    next
      case q: False
      then show ?thesis using False d by (simp add: POST_def try_block_def)
    qed
  qed
next
  assume "\<not> nullish body" and "own_prop body ''role'' = JUndefined"
  then show "destructure body = Inr (own_prop body ''q'', JStr ''agent'')"
    by (simp add: destructure_def)
next
  show "POST H (Inl err) = error_reply err"
    by (simp add: POST_def try_block_def error_reply_def)
qed

text \<open>A body without \<^verbatim>\<open>q\<close> and a body with the empty \<^verbatim>\<open>q\<close> are answered 400; a body
  without \<^verbatim>\<open>role\<close> gets the role \<^verbatim>\<open>"agent"\<close>.\<close>

theorem POST_client_error_witness:
  "status_code (POST plain_host (Inr (JObj []))) = 400 \<and>
   status_code (POST plain_host (Inr (JObj [(''q'', JStr ''''), (''role'', JStr ''loan'')]))) = 400 \<and>
   destructure (JObj [(''q'', JStr ''123 Main St'')]) = Inr (JStr ''123 Main St'', JStr ''agent'')"
  using POST_client_error [of plain_host "JObj []"]
    POST_client_error [of plain_host "JObj [(''q'', JStr ''''), (''role'', JStr ''loan'')]"]
    POST_client_error [of plain_host "JObj [(''q'', JStr ''123 Main St'')]"]
  by simp

text \<open>
  Claim C4 as the spec words it fails: a query of one space is empty after trimming, and
  \<^verbatim>\<open>POST\<close> processes it to a 200 reply whose \<^verbatim>\<open>q\<close> is that space.
\<close>

theorem POST_whitespace_counterexample:
  "trim '' '' = [] \<and>
   POST empty_answer_host (Inr (JObj [(''q'', JStr '' '')])) =
     success_reply default_page (JStr '' '') (JStr ''agent'') (JStr ''{}'') \<and>
   status_code (POST empty_answer_host (Inr (JObj [(''q'', JStr '' '')]))) = 200"
proof -
  have tab: "map_of [(''{}'', JObj []), (empty_answer_body, empty_answer_data)] ''{}'' =
             Some (JObj [])"
    by simp
  have inv: "find (\<lambda>entry. snd entry = JObj [])
               [(''{}'', JObj []), (empty_answer_body, empty_answer_data)] =
             Some (''{}'', JObj [])"
    by simp
  have llm: "map_of [(''{}'', JObj []), (empty_answer_body, empty_answer_data)]
               empty_answer_body = Some empty_answer_data"
    by (simp add: empty_answer_body_def)
  have lit: "to_string (\<lambda>n. []) (llm_text empty_answer_data) = Inr ''{}''"
    by (simp add: empty_answer_data_def llm_text_def opt_prop_def coalesce_def)
  have d: "destructure (JObj [(''q'', JStr '' '')]) = Inr (JStr '' '', JStr ''agent'')"
    by (simp add: destructure_def)
  have "POST empty_answer_host (Inr (JObj [(''q'', JStr '' '')])) =
        success_reply default_page (JStr '' '') (JStr ''agent'') (JStr ''{}'')"
    unfolding empty_answer_host_def
    by (rule stub_pipeline_empty_object [OF tab inv llm lit d]) simp
  then show ?thesis
    by (simp add: trim_def is_ws_def success_reply_def)
qed

section \<open>The Markdown export: results\<close>

lemma trim_unchanged:
  assumes "s \<noteq> []" and "\<not> is_ws (hd s)" and "\<not> is_ws (last s)"
  shows "trim s = s"
proof -
  have a: "dropWhile is_ws s = s"
    using assms(2) by (simp add: dropWhile_eq_self_iff)
  have "dropWhile is_ws (rev s) = rev s"
    using assms(1,3) by (simp add: dropWhile_eq_self_iff hd_rev)
  then show ?thesis
    by (simp add: trim_def a)
qed

lemma trim_final_newline:
  assumes "s \<noteq> []" and "\<not> is_ws (hd s)" and "\<not> is_ws (last s)"
  shows "trim (s @ [CHR 0x0A]) = s"
proof -
  have a: "dropWhile is_ws (s @ [CHR 0x0A]) = s @ [CHR 0x0A]"
    using assms(1,2) by (simp add: dropWhile_eq_self_iff)
  have nl: "is_ws (CHR 0x0A)"
    by (simp add: is_ws_def)
  have "dropWhile is_ws (rev s) = rev s"
    using assms(1,3) by (simp add: dropWhile_eq_self_iff hd_rev)
  then show ?thesis
    by (simp add: trim_def a nl)
qed

lemma last_dropWhile:
  assumes "dropWhile P xs \<noteq> []"
  shows "last (dropWhile P xs) = last xs"
proof -
  have "xs = takeWhile P xs @ dropWhile P xs"
    by simp
  then have "last xs = last (takeWhile P xs @ dropWhile P xs)"
    by simp
  also have "\<dots> = last (dropWhile P xs)"
    using assms by (rule last_appendR)
  finally show ?thesis by simp
qed

lemma trim_edges:
  assumes "trim z \<noteq> []"
  shows "\<not> is_ws (hd (trim z))" and "\<not> is_ws (last (trim z))"
proof -
  let ?a = "dropWhile is_ws z"
  let ?b = "dropWhile is_ws (rev ?a)"
  have b: "?b \<noteq> []"
    using assms by (simp add: trim_def)
  have a: "?a \<noteq> []"
  proof
    assume e: "?a = []"
    have "?b = []"
      unfolding e by simp
    with b show False
      by contradiction
  qed
  have "hd (trim z) = last ?b"
    using b by (simp add: trim_def hd_rev)
  also have "\<dots> = last (rev ?a)"
    using b by (rule last_dropWhile)
  also have "\<dots> = hd ?a"
    using a by (simp add: last_rev)
  finally have "hd (trim z) = hd ?a" .
  moreover have "\<not> is_ws (hd ?a)"
    using a by (rule hd_dropWhile)
  ultimately show "\<not> is_ws (hd (trim z))"
    by simp
  have "last (trim z) = hd ?b"
    using b by (simp add: trim_def last_rev)
  moreover have "\<not> is_ws (hd ?b)"
    using b by (rule hd_dropWhile)
  ultimately show "\<not> is_ws (last (trim z))"
    by simp
qed

lemma stripHtml_paragraph:
  assumes "trim Z \<noteq> []" and "textContent D (''<p>'' @ Z @ ''</p>'') = Z"
  shows "stripHtml nts D (JStr (''<p>'' @ Z @ ''</p>'')) = Inr (trim Z)"
proof -
  have "Z \<noteq> []"
    using assms(1) by (cases Z) (simp_all add: trim_def)
  then show ?thesis
    using assms(2) by (simp add: stripHtml_def or_else_def)
qed

text \<open>
  Claim C9. For a page whose title \<open>X\<close> and single section's title \<open>Y\<close> are not empty
  and whose section's html is the paragraph \<^verbatim>\<open><p>Z</p>\<close>, read by the browser as the
  text \<open>Z\<close> (not blank), the Markdown is the line \<^verbatim>\<open># X\<close>, an empty line, the
  description as a block quote when there is one, the line \<^verbatim>\<open>## Y\<close>, an empty line,
  and the text \<open>Z\<close> without surrounding white space: the paragraph's tags are gone.
\<close>

theorem toMarkdown_headings:
  assumes "X \<noteq> []" and "Y \<noteq> []" and "trim Z \<noteq> []"
    and "textContent D (''<p>'' @ Z @ ''</p>'') = Z"
  shows "toMarkdown nts D (one_section_page X Dsc I Y (''<p>'' @ Z @ ''</p>'') W) =
           Inr (''# '' @ X @ [CHR 0x0A, CHR 0x0A] @
                (if Dsc = [] then [] else ''> '' @ Dsc @ [CHR 0x0A, CHR 0x0A]) @
                ''## '' @ Y @ [CHR 0x0A, CHR 0x0A] @ trim Z)"
proof -
  let ?sec = "JObj [(''id'', JStr I), (''title'', JStr Y),
                    (''html'', JStr (''<p>'' @ Z @ ''</p>''))]"
  let ?out = "''# '' @ X @ [CHR 0x0A, CHR 0x0A] @
              (if Dsc = [] then [] else ''> '' @ Dsc @ [CHR 0x0A, CHR 0x0A]) @
              ''## '' @ Y @ [CHR 0x0A, CHR 0x0A] @ trim Z"
  have sec: "section_parts nts D ?sec = Inr [''## '' @ Y, [], trim Z, []]"
    using assms(2) stripHtml_paragraph [OF assms(3,4)]
    by (simp add: section_parts_def get_prop_def or_else_def)
  have last_out: "last ?out = last (trim Z)"
    using assms(3) by simp
  have edges: "?out \<noteq> []" "\<not> is_ws (hd ?out)" "\<not> is_ws (last ?out)"
    using trim_edges(2) [OF assms(3)] by (simp_all only: last_out) (simp_all add: is_ws_def)
  have "toMarkdown nts D (one_section_page X Dsc I Y (''<p>'' @ Z @ ''</p>'') W) =
        Inr (trim (?out @ [CHR 0x0A]))"
  proof (cases "Dsc = []")
    case True
    then show ?thesis
      using assms(1) sec
      by (simp add: toMarkdown_def one_section_page_def opt_prop_def or_else_def)
  next
    case False
    then show ?thesis
      using assms(1) sec
      by (simp add: toMarkdown_def one_section_page_def opt_prop_def or_else_def)
  qed
  then show ?thesis
    by (simp only: trim_final_newline [OF edges])
qed

text \<open>The spec's example: title X, one section titled Y with the html
  \<^verbatim>\<open><p>Z</p>\<close>.\<close>

theorem toMarkdown_headings_witness:
  "toMarkdown (\<lambda>n. []) paragraph_dom
     (one_section_page ''X'' [] ''s1'' ''Y'' ''<p>Z</p>'' ''<h1>X</h1><p>Z</p>'') =
     Inr (''# X'' @ [CHR 0x0A, CHR 0x0A] @ ''## Y'' @ [CHR 0x0A, CHR 0x0A] @ ''Z'')"
proof -
  have t: "trim ''Z'' = ''Z''"
    by (simp add: trim_def is_ws_def)
  have d: "textContent paragraph_dom (''<p>'' @ ''Z'' @ ''</p>'') = ''Z''"
    by (simp add: paragraph_dom_def paragraph_text_def)
  show ?thesis
    using toMarkdown_headings [of "''X''" "''Y''" "''Z''" paragraph_dom "\<lambda>n. []" "[]" "''s1''"
        "''<h1>X</h1><p>Z</p>''"] t d
    by simp
qed

end
